theory Spec2Isabelle
  imports
    Complex_Main
    "HOL-Library.Multiset"
    "HOL-Library.Sublist"
    "HOL-Library.Char_ord"
    "HOL-Library.List_Lexorder"
    "HOL-Library.AList"
begin

section \<open>Dynamic values and their \<open>%v\<close> rendering\<close>

text \<open>
  A flag's default value has Go type \<open>any\<close>.  The dynamic types that occur are the ones
  \<open>encoding/json\<close> produces (\<open>nil\<close>, \<open>bool\<close>, \<open>float64\<close>, \<open>string\<close>, \<open>[]any\<close>,
  \<open>map[string]any\<close>) and the \<open>int\<close> that \<open>getOnValue\<close> builds.  A finite \<open>float64\<close> is
  represented by the rational number it denotes; a Go map by an association list.
\<close>

datatype any =
    ANil
  | ABool bool
  | AInt int
  | AFloat rat
  | AString string
  | ASlice "any list"
  | AMap "(string \<times> any) list"

text \<open>Decimal digits of a Go integer, as \<open>strconv\<close> prints them.\<close>

definition digit_char :: "nat \<Rightarrow> char" where
  "digit_char d = char_of (48 + d)"

function show_nat :: "nat \<Rightarrow> string" where
  "show_nat n = (if n < 10 then [digit_char n] else show_nat (n div 10) @ [digit_char (n mod 10)])"
  by pat_completeness auto
termination
  by (relation "measure id") auto

declare show_nat.simps [simp del]

definition show_int :: "int \<Rightarrow> string" where
  "show_int i = (if i < 0 then CHR ''-'' # show_nat (nat (- i)) else show_nat (nat i))"

fun join_sp :: "string list \<Rightarrow> string" where
  "join_sp [] = []"
| "join_sp [s] = s"
| "join_sp (s # t # ss) = s @ '' '' @ join_sp (t # ss)"

text \<open>
  \<open>fmt.Sprintf("%v", v)\<close> on the dynamic types above.  The digits of a \<open>float64\<close> (verb
  \<open>%g\<close>, shortest representation) are floating-point formatting and stay a parameter
  \<open>g\<close>; maps print with their keys sorted.
\<close>

fun sprint_v :: "(rat \<Rightarrow> string) \<Rightarrow> any \<Rightarrow> string" where
  "sprint_v g ANil = ''<nil>''"
| "sprint_v g (ABool b) = (if b then ''true'' else ''false'')"
| "sprint_v g (AInt i) = show_int i"
| "sprint_v g (AFloat q) = g q"
| "sprint_v g (AString s) = s"
| "sprint_v g (ASlice xs) = ''['' @ join_sp (map (sprint_v g) xs) @ '']''"
| "sprint_v g (AMap kvs) =
     ''map['' @ join_sp (map snd (sort_key fst
        (map (\<lambda>kv. (fst kv, fst kv @ '':'' @ sprint_v g (snd kv))) kvs))) @ '']''"

text \<open>
  A whole-numbered \<open>float64\<close> of magnitude below \<open>1e6\<close> prints as its integer digits
  (from \<open>1e6\<close> on \<open>%v\<close> prints an exponent); this formatter is used at such values
  only, when a rendering is evaluated on a concrete input.
\<close>

definition g_whole :: "rat \<Rightarrow> string" where
  "g_whole q = show_int \<lfloor>q\<rfloor>"

section \<open>The flag model (\<open>internal/flagset/flagset.go\<close>)\<close>

datatype FlagType = UnknownFlagType | IntType | FloatType | BoolType | StringType | ObjectType

fun FlagType_String :: "FlagType \<Rightarrow> string" where
  "FlagType_String IntType = ''integer''"
| "FlagType_String FloatType = ''float''"
| "FlagType_String BoolType = ''boolean''"
| "FlagType_String StringType = ''string''"
| "FlagType_String ObjectType = ''object''"
| "FlagType_String UnknownFlagType = ''unknown''"

record Flag =
  Key :: string
  Type :: FlagType
  Description :: string
  DefaultValue :: any
  Expiry :: string

record Flagset =
  Flags :: "Flag list"

text \<open>Go errors, by the format string that builds them and its arguments.\<close>

datatype error =
    Errorf string
  | ErrorfS string string
  | ErrorfW string error
  | ErrorfSW string string error
  | ErrorfDS string int string
  | ErrorfSL string string "string list"
  | ErrConfigInvalid string string
  | Panic string

definition ParseFlagType :: "string \<Rightarrow> error + FlagType" where
  "ParseFlagType typeStr =
     (if typeStr = ''integer'' \<or> typeStr = ''Integer'' then Inr IntType
      else if typeStr = ''float'' \<or> typeStr = ''Float'' \<or> typeStr = ''Number'' then Inr FloatType
      else if typeStr = ''boolean'' \<or> typeStr = ''bool'' \<or> typeStr = ''Boolean'' then Inr BoolType
      else if typeStr = ''string'' \<or> typeStr = ''String'' then Inr StringType
      else if typeStr = ''object'' \<or> typeStr = ''Object'' \<or> typeStr = ''JSON'' then Inr ObjectType
      else Inl (ErrorfS ''unknown flag type: %s'' typeStr))"

section \<open>The plugin contract (\<open>internal/plugin/plugin.go\<close>)\<close>

type_synonym Capability = string

definition CapabilityPull :: Capability where "CapabilityPull = ''pull''"
definition CapabilityPush :: Capability where "CapabilityPush = ''push''"
definition CapabilityCompare :: Capability where "CapabilityCompare = ''compare''"
definition CapabilityDelete :: Capability where "CapabilityDelete = ''delete''"

type_synonym Stability = string

definition StabilityExperimental :: Stability where "StabilityExperimental = ''experimental''"
definition StabilityBeta :: Stability where "StabilityBeta = ''beta''"
definition StabilityStable :: Stability where "StabilityStable = ''stable''"

record ConfigProperty =
  Type :: string
  Description :: string
  Default :: any
  EnvVar :: string
  Sensitive :: bool

record ConfigSchema =
  Required :: "string list"
  Properties :: "(string \<times> ConfigProperty) list"

record Metadata =
  Name :: string
  Version :: string
  Description :: string
  Stability :: Stability
  Capabilities :: "Capability list"
  ConfigSchema :: "ConfigSchema option"

record Config =
  BaseURL :: string
  AuthToken :: string
  Custom :: "string \<rightharpoonup> any"

text \<open>
  A \<open>context.Context\<close>: the background context, or one the caller made (deadline,
  cancellation), known here by an identifier only; requests carry it to the transport.
\<close>

datatype go_context = Background | CallerContext nat

record PullOptions =
  Context :: "go_context option"

record PushOptions =
  Context :: "go_context option"
  DryRun :: bool

record CompareOptions =
  Context :: "go_context option"

record PushResult =
  Created :: "Flag list"
  Updated :: "Flag list"
  Deleted :: "Flag list"
  Unchanged :: "Flag list"
  Errors :: "error list"

record FlagDiff =
  Key :: string
  Local :: Flag
  Remote :: Flag

record CompareResult =
  Added :: "Flag list"
  Removed :: "Flag list"
  Modified :: "FlagDiff list"
  Unchanged :: "Flag list"

text \<open>The zero values \<open>&plugin.PushResult{}\<close> and \<open>&plugin.CompareResult{}\<close>.\<close>

definition PushResult_zero :: PushResult where
  "PushResult_zero =
     \<lparr>Created = [], Updated = [], Deleted = [], PushResult.Unchanged = [], Errors = []\<rparr>"

definition CompareResult_zero :: CompareResult where
  "CompareResult_zero =
     \<lparr>Added = [], Removed = [], Modified = [], CompareResult.Unchanged = []\<rparr>"

text \<open>\<open>ctx := opts.Context; if ctx == nil { ctx = context.Background() }\<close>\<close>

definition ctx_or_background :: "go_context option \<Rightarrow> go_context" where
  "ctx_or_background c = (case c of None \<Rightarrow> Background | Some ctx \<Rightarrow> ctx)"

section \<open>Go maps keyed by flag key\<close>

text \<open>
  A Go map is an association list with distinct keys, built by assignment
  (\<open>m[k] = v\<close> overwrites).  \<open>range\<close> over a map visits every entry once in an order the
  runtime chooses: the loops below run over \<open>ord m\<close>, where \<open>ord\<close> is that choice, any
  function that permutes its argument.
\<close>

definition flag_map :: "Flag list \<Rightarrow> (string \<times> Flag) list" where
  "flag_map flags = fold (\<lambda>flag m. AList.update (Flag.Key flag) flag m) flags []"

section \<open>The DevCycle client (\<open>internal/plugin/builtin/devcycle/client.go\<close>)\<close>

definition authURL :: string where
  "authURL = ''https://auth.devcycle.com/oauth/token''"

definition apiURL :: string where
  "apiURL = ''https://api.devcycle.com''"

record Variable =
  ID :: string
  Key :: string
  Name :: string
  Type :: string
  Description :: string
  DefaultValue :: any
  CreatedAt :: string
  UpdatedAt :: string

record Feature =
  ID :: string
  Key :: string
  Name :: string
  Description :: string
  Type :: string
  Variables :: "Variable list"
  Variations :: "any list"

record tokenResponse =
  AccessToken :: string
  TokenType :: string
  ExpiresIn :: int

text \<open>
  Times are nanoseconds since the Unix epoch; \<open>zero_time\<close> is the zero \<open>time.Time\<close>
  (1 January of year 1).  The client's mutexes are not modelled: calls are sequential.
\<close>

definition zero_time :: int where
  "zero_time = - 62135596800 * 1000000000"

record Client =
  clientID :: string
  clientSecret :: string
  accessToken :: string
  tokenExpiry :: int

subsection \<open>Requests, responses and the host\<close>

text \<open>
  A request body is the value handed to the encoder: the form values of the OAuth
  exchange (in the key order \<open>url.Values.Encode\<close> writes), or the argument of
  \<open>json.Marshal\<close>, which cannot fail on the values modelled here.
\<close>

datatype payload =
    PMap "(string \<times> any) list"
  | PFeature Feature

datatype req_body =
    NoBody
  | FormBody "(string \<times> string) list"
  | JSONBody payload

record http_request =
  ctx :: go_context
  Method :: string
  URL :: string
  Header :: "(string \<times> string) list"
  body :: req_body

text \<open>
  A response: its status, the bytes of its body, and what \<open>encoding/json\<close> reads from
  those bytes (\<open>json.NewDecoder(resp.Body).Decode\<close> into a \<open>tokenResponse\<close> or a
  \<open>[]Variable\<close> succeeds on a document of that shape only).
\<close>

datatype json_document =
    NotJSON
  | TokenJSON tokenResponse
  | VariablesJSON "Variable list"

record http_response =
  StatusCode :: int
  Body :: string
  Document :: json_document

fun decode_token :: "http_response \<Rightarrow> error + tokenResponse" where
  "decode_token resp =
     (case Document resp of
        TokenJSON t \<Rightarrow> Inr t
      | _ \<Rightarrow> Inl (Errorf ''json: cannot decode into tokenResponse''))"

fun decode_variables :: "http_response \<Rightarrow> error + Variable list" where
  "decode_variables resp =
     (case Document resp of
        VariablesJSON vs \<Rightarrow> Inr vs
      | _ \<Rightarrow> Inl (Errorf ''json: cannot decode into []Variable''))"

text \<open>
  What the client runs on: the transport behind \<open>httpClient.Do\<close> (the network and the
  servers, with a state \<open>'w\<close> of their own), the clock behind \<open>time.Now\<close>, and
  \<open>http.NewRequestWithContext\<close>, which refuses a malformed URL.
\<close>

record 'w host =
  Do :: "http_request \<Rightarrow> 'w \<Rightarrow> (error + http_response) \<times> 'w"
  Now :: "'w \<Rightarrow> int \<times> 'w"
  NewRequest :: "string \<Rightarrow> string \<Rightarrow> error option"

text \<open>The environment of a run: the host's state and the requests sent so far.\<close>

record 'w env =
  world :: 'w
  sent :: "http_request list"

definition httpClient_Do ::
  "'w host \<Rightarrow> http_request \<Rightarrow> 'w env \<Rightarrow> (error + http_response) \<times> 'w env" where
  "httpClient_Do h req e =
     (case Do h req (world e) of
        (r, w') \<Rightarrow> (r, \<lparr>world = w', sent = sent e @ [req]\<rparr>))"

definition time_Now :: "'w host \<Rightarrow> 'w env \<Rightarrow> int \<times> 'w env" where
  "time_Now h e = (case Now h (world e) of (t, w') \<Rightarrow> (t, e\<lparr>world := w'\<rparr>))"

text \<open>Arithmetic of \<open>int64\<close> (Go's \<open>int\<close> and \<open>time.Duration\<close>) wraps around.\<close>

definition wrap64 :: "int \<Rightarrow> int" where
  "wrap64 x = (x + 2 ^ 63) mod 2 ^ 64 - 2 ^ 63"

text \<open>\<open>time.Duration(tokenResp.ExpiresIn-60) * time.Second\<close>, in nanoseconds.\<close>

definition token_lifetime :: "int \<Rightarrow> int" where
  "token_lifetime expiresIn = wrap64 (wrap64 (expiresIn - 60) * 1000000000)"

definition NewClient :: "string \<Rightarrow> string \<Rightarrow> error + Client" where
  "NewClient cid secret =
     (if cid = [] \<or> secret = [] then Inl (Errorf ''clientId and clientSecret are required'')
      else Inr \<lparr>clientID = cid, clientSecret = secret, accessToken = [],
                tokenExpiry = zero_time\<rparr>)"

definition auth_request :: "go_context \<Rightarrow> Client \<Rightarrow> http_request" where
  "auth_request cx c =
     \<lparr>ctx = cx, Method = ''POST'', URL = authURL,
      Header = [(''Content-Type'', ''application/x-www-form-urlencoded'')],
      body = FormBody [(''audience'', ''https://api.devcycle.com/''),
                       (''client_id'', clientID c),
                       (''client_secret'', clientSecret c),
                       (''grant_type'', ''client_credentials'')]\<rparr>"

text \<open>The exchange \<open>authenticate\<close> runs when the cached token is missing or stale.\<close>

definition refresh_token ::
  "'w host \<Rightarrow> go_context \<Rightarrow> Client \<Rightarrow> 'w env \<Rightarrow> error option \<times> Client \<times> 'w env" where
  "refresh_token h cx c e =
     (case NewRequest h ''POST'' authURL of
        Some err \<Rightarrow> (Some (ErrorfW ''failed to create auth request: %w'' err), c, e)
      | None \<Rightarrow>
         (case httpClient_Do h (auth_request cx c) e of
            (Inl err, e1) \<Rightarrow> (Some (ErrorfW ''failed to authenticate: %w'' err), c, e1)
          | (Inr resp, e1) \<Rightarrow>
              if StatusCode resp \<noteq> 200 then
                (Some (ErrorfDS ''authentication failed (status %d): %s''
                         (StatusCode resp) (Body resp)), c, e1)
              else
                (case decode_token resp of
                   Inl err \<Rightarrow> (Some (ErrorfW ''failed to parse auth response: %w'' err), c, e1)
                 | Inr tokenResp \<Rightarrow>
                     (case time_Now h e1 of
                        (now, e2) \<Rightarrow>
                          (None,
                           c\<lparr>accessToken := AccessToken tokenResp,
                             tokenExpiry := now + token_lifetime (ExpiresIn tokenResp)\<rparr>,
                           e2)))))"

text \<open>\<open>c.accessToken != "" && time.Now().Before(c.tokenExpiry)\<close> reads the clock only
  when a token is cached.\<close>

definition authenticate ::
  "'w host \<Rightarrow> go_context \<Rightarrow> Client \<Rightarrow> 'w env \<Rightarrow> error option \<times> Client \<times> 'w env" where
  "authenticate h cx c e =
     (if accessToken c \<noteq> [] then
        (case time_Now h e of
           (now, e1) \<Rightarrow>
             if now < tokenExpiry c then (None, c, e1) else refresh_token h cx c e1)
      else refresh_token h cx c e)"

definition api_request ::
  "go_context \<Rightarrow> string \<Rightarrow> string \<Rightarrow> payload option \<Rightarrow> Client \<Rightarrow> http_request" where
  "api_request cx m path b c =
     \<lparr>ctx = cx, Method = m, URL = apiURL @ path,
      Header = [(''Authorization'', ''Bearer '' @ accessToken c),
                (''Content-Type'', ''application/json''),
                (''Accept'', ''application/json'')],
      body = (case b of None \<Rightarrow> NoBody | Some v \<Rightarrow> JSONBody v)\<rparr>"

definition doRequest ::
  "'w host \<Rightarrow> go_context \<Rightarrow> string \<Rightarrow> string \<Rightarrow> payload option \<Rightarrow> Client \<Rightarrow> 'w env
     \<Rightarrow> (error + http_response) \<times> Client \<times> 'w env" where
  "doRequest h cx m path b c e =
     (case authenticate h cx c e of
        (Some err, c1, e1) \<Rightarrow> (Inl err, c1, e1)
      | (None, c1, e1) \<Rightarrow>
          (case NewRequest h m (apiURL @ path) of
             Some err \<Rightarrow> (Inl (ErrorfW ''failed to create request: %w'' err), c1, e1)
           | None \<Rightarrow>
               (case httpClient_Do h (api_request cx m path b c1) e1 of
                  (r, e2) \<Rightarrow> (r, c1, e2))))"

definition GetVariables ::
  "'w host \<Rightarrow> go_context \<Rightarrow> string \<Rightarrow> Client \<Rightarrow> 'w env
     \<Rightarrow> (error + Variable list) \<times> Client \<times> 'w env" where
  "GetVariables h cx project c e =
     (case doRequest h cx ''GET'' (''/v1/projects/'' @ project @ ''/variables'') None c e of
        (Inl err, c1, e1) \<Rightarrow> (Inl err, c1, e1)
      | (Inr resp, c1, e1) \<Rightarrow>
          if StatusCode resp \<noteq> 200 then
            (Inl (ErrorfDS ''failed to fetch variables (status %d): %s''
                    (StatusCode resp) (Body resp)), c1, e1)
          else
            (case decode_variables resp of
               Inl err \<Rightarrow> (Inl (ErrorfW ''failed to parse variables response: %w'' err), c1, e1)
             | Inr variables \<Rightarrow> (Inr variables, c1, e1)))"

text \<open>\<open>getOnValue\<close>: the ``on'' value of a variation.\<close>

definition getOnValue :: "string \<Rightarrow> any \<Rightarrow> any" where
  "getOnValue varType defaultValue =
     (if varType = ''Boolean'' then
        (case defaultValue of ABool b \<Rightarrow> ABool (\<not> b) | _ \<Rightarrow> ABool True)
      else if varType = ''String'' then AString ''enabled''
      else if varType = ''Number'' then AInt 1
      else if varType = ''JSON'' then AMap [(''enabled'', ABool True)]
      else defaultValue)"

definition feature_of_variable :: "Variable \<Rightarrow> Feature" where
  "feature_of_variable variable =
     \<lparr>Feature.ID = [],
      Feature.Key = Variable.Key variable,
      Feature.Name = Variable.Key variable,
      Feature.Description = Variable.Description variable,
      Feature.Type = ''release'',
      Variables =
        [\<lparr>Variable.ID = [],
          Variable.Key = Variable.Key variable,
          Variable.Name = Variable.Key variable,
          Variable.Type = Variable.Type variable,
          Variable.Description = Variable.Description variable,
          Variable.DefaultValue = Variable.DefaultValue variable,
          CreatedAt = [], UpdatedAt = []\<rparr>],
      Variations =
        [AMap [(''key'', AString ''variation-on''),
               (''name'', AString ''Variation On''),
               (''variables'',
                  AMap [(Variable.Key variable,
                         getOnValue (Variable.Type variable) (Variable.DefaultValue variable))])],
         AMap [(''key'', AString ''variation-off''),
               (''name'', AString ''Variation Off''),
               (''variables'',
                  AMap [(Variable.Key variable, Variable.DefaultValue variable)])]]\<rparr>"

definition CreateFeatureWithVariable ::
  "'w host \<Rightarrow> go_context \<Rightarrow> string \<Rightarrow> Variable \<Rightarrow> Client \<Rightarrow> 'w env
     \<Rightarrow> error option \<times> Client \<times> 'w env" where
  "CreateFeatureWithVariable h cx project variable c e =
     (case doRequest h cx ''POST'' (''/v2/projects/'' @ project @ ''/features'')
             (Some (PFeature (feature_of_variable variable))) c e of
        (Inl err, c1, e1) \<Rightarrow> (Some err, c1, e1)
      | (Inr resp, c1, e1) \<Rightarrow>
          if StatusCode resp < 200 \<or> StatusCode resp \<ge> 300 then
            (Some (ErrorfDS ''failed to create feature (status %d): %s''
                     (StatusCode resp) (Body resp)), c1, e1)
          else (None, c1, e1))"

definition updateBody :: "Variable \<Rightarrow> (string \<times> any) list" where
  "updateBody variable = [(''description'', AString (Variable.Description variable))]"

definition UpdateVariable ::
  "'w host \<Rightarrow> go_context \<Rightarrow> string \<Rightarrow> string \<Rightarrow> Variable \<Rightarrow> Client \<Rightarrow> 'w env
     \<Rightarrow> error option \<times> Client \<times> 'w env" where
  "UpdateVariable h cx project variableKey variable c e =
     (case doRequest h cx ''PATCH''
             (''/v1/projects/'' @ project @ ''/variables/'' @ variableKey)
             (Some (PMap (updateBody variable))) c e of
        (Inl err, c1, e1) \<Rightarrow> (Some err, c1, e1)
      | (Inr resp, c1, e1) \<Rightarrow>
          if StatusCode resp < 200 \<or> StatusCode resp \<ge> 300 then
            (Some (ErrorfDS ''failed to update variable (status %d): %s''
                     (StatusCode resp) (Body resp)), c1, e1)
          else (None, c1, e1))"

section \<open>Flag comparison shared by the two plugins\<close>

text \<open>
  \<open>flagsEqual\<close> has the same text in \<open>builtin/default_plugin.go\<close> and in
  \<open>builtin/devcycle/plugin.go\<close>.  Its parameter \<open>fv\<close> is \<open>fmt.Sprintf("%v", \<cdot>)\<close>.
\<close>

definition flagsEqual :: "(any \<Rightarrow> string) \<Rightarrow> Flag \<Rightarrow> Flag \<Rightarrow> bool" where
  "flagsEqual fv a b =
     (if Flag.Key a \<noteq> Flag.Key b \<or> Flag.Type a \<noteq> Flag.Type b
           \<or> Flag.Description a \<noteq> Flag.Description b
      then False
      else fv (Flag.DefaultValue a) = fv (Flag.DefaultValue b))"

text \<open>The body of the loop ``find added and modified'' of \<open>Compare\<close>, for one entry of
  \<open>localMap\<close>.\<close>

definition compare_local ::
  "(any \<Rightarrow> string) \<Rightarrow> (string \<times> Flag) list \<Rightarrow> string \<times> Flag \<Rightarrow> CompareResult
     \<Rightarrow> CompareResult" where
  "compare_local fv remoteMap entry result =
     (case entry of
        (key, localFlag) \<Rightarrow>
          (case map_of remoteMap key of
             Some remoteFlag \<Rightarrow>
               if \<not> flagsEqual fv localFlag remoteFlag then
                 result\<lparr>Modified := Modified result
                           @ [\<lparr>FlagDiff.Key = key, Local = localFlag, Remote = remoteFlag\<rparr>]\<rparr>
               else
                 result\<lparr>CompareResult.Unchanged :=
                           CompareResult.Unchanged result @ [localFlag]\<rparr>
           | None \<Rightarrow> result\<lparr>Added := Added result @ [localFlag]\<rparr>))"

text \<open>The body of the loop ``find removed'', for one entry of \<open>remoteMap\<close>.\<close>

definition compare_remote ::
  "(string \<times> Flag) list \<Rightarrow> string \<times> Flag \<Rightarrow> CompareResult \<Rightarrow> CompareResult" where
  "compare_remote localMap entry result =
     (case entry of
        (key, remoteFlag) \<Rightarrow>
          (case map_of localMap key of
             None \<Rightarrow> result\<lparr>Removed := Removed result @ [remoteFlag]\<rparr>
           | Some localFlag \<Rightarrow> result))"

text \<open>Both loops, over the two maps in the orders \<open>ordL\<close> and \<open>ordR\<close> of their \<open>range\<close>.\<close>

definition compare_maps ::
  "(any \<Rightarrow> string) \<Rightarrow> ((string \<times> Flag) list \<Rightarrow> (string \<times> Flag) list)
     \<Rightarrow> ((string \<times> Flag) list \<Rightarrow> (string \<times> Flag) list)
     \<Rightarrow> (string \<times> Flag) list \<Rightarrow> (string \<times> Flag) list \<Rightarrow> CompareResult" where
  "compare_maps fv ordL ordR localMap remoteMap =
     fold (compare_remote localMap) (ordR remoteMap)
       (fold (compare_local fv remoteMap) (ordL localMap) CompareResult_zero)"

section \<open>The default plugin (\<open>internal/plugin/builtin/default_plugin.go\<close>)\<close>

text \<open>
  The plugin drives \<open>sync.Client\<close> of \<open>internal/api/sync\<close>, whose code is not part of
  the sources at hand: the client is a value of a type \<open>'c\<close>, and its constructor and the
  two methods the plugin calls are parameters, acting on a state \<open>'w\<close> of the network.
\<close>

record sync_PushResult =
  Created :: "Flag list"
  Updated :: "Flag list"
  Unchanged :: "Flag list"

record ('c, 'w) sync_api =
  sync_NewClient :: "string \<Rightarrow> string \<Rightarrow> error + 'c"
  PullFlags :: "'c \<Rightarrow> go_context \<Rightarrow> 'w \<Rightarrow> (error + Flagset) \<times> 'w"
  PushFlags ::
    "'c \<Rightarrow> go_context \<Rightarrow> Flagset \<Rightarrow> Flagset \<Rightarrow> bool \<Rightarrow> 'w \<Rightarrow> (error + sync_PushResult) \<times> 'w"

record 'c DefaultPlugin =
  config :: Config
  client :: "'c option"

definition Config_zero :: Config where
  "Config_zero = \<lparr>BaseURL = [], AuthToken = [], Custom = Map.empty\<rparr>"

definition NewDefaultPlugin :: "'c DefaultPlugin" where
  "NewDefaultPlugin = \<lparr>DefaultPlugin.config = Config_zero, DefaultPlugin.client = None\<rparr>"

definition DefaultPlugin_Configure ::
  "('c, 'w) sync_api \<Rightarrow> Config \<Rightarrow> 'c DefaultPlugin \<Rightarrow> error option \<times> 'c DefaultPlugin" where
  "DefaultPlugin_Configure api cfg p =
     (case sync_NewClient api (BaseURL cfg) (AuthToken cfg) of
        Inl err \<Rightarrow>
          (Some (ErrorfW ''failed to create sync client: %w'' err),
           p\<lparr>DefaultPlugin.config := cfg\<rparr>)
      | Inr c \<Rightarrow>
          (None, p\<lparr>DefaultPlugin.config := cfg, DefaultPlugin.client := Some c\<rparr>))"

definition DefaultPlugin_ValidateConfig :: "'c DefaultPlugin \<Rightarrow> error option" where
  "DefaultPlugin_ValidateConfig p =
     (if BaseURL (DefaultPlugin.config p) = []
      then Some (ErrConfigInvalid ''default'' ''baseUrl is required'')
      else None)"

definition DefaultPlugin_Pull ::
  "('c, 'w) sync_api \<Rightarrow> 'c DefaultPlugin \<Rightarrow> PullOptions \<Rightarrow> 'w \<Rightarrow> (error + Flagset) \<times> 'w" where
  "DefaultPlugin_Pull api p opts w =
     (case DefaultPlugin.client p of
        None \<Rightarrow> (Inl (Errorf ''plugin not configured: call Configure() first''), w)
      | Some c \<Rightarrow> PullFlags api c (ctx_or_background (PullOptions.Context opts)) w)"

definition DefaultPlugin_Push ::
  "('c, 'w) sync_api \<Rightarrow> 'c DefaultPlugin \<Rightarrow> Flagset \<Rightarrow> PushOptions \<Rightarrow> 'w
     \<Rightarrow> (error + PushResult) \<times> 'w" where
  "DefaultPlugin_Push api p local opts w =
     (case DefaultPlugin.client p of
        None \<Rightarrow> (Inl (Errorf ''plugin not configured: call Configure() first''), w)
      | Some c \<Rightarrow>
          (let cx = ctx_or_background (PushOptions.Context opts) in
           case PullFlags api c cx w of
             (Inl err, w1) \<Rightarrow>
               (Inl (ErrorfW ''failed to fetch remote flags for comparison: %w'' err), w1)
           | (Inr remoteFlags, w1) \<Rightarrow>
               (case PushFlags api c cx local remoteFlags (DryRun opts) w1 of
                  (Inl err, w2) \<Rightarrow> (Inl err, w2)
                | (Inr syncResult, w2) \<Rightarrow>
                    (Inr \<lparr>PushResult.Created = sync_PushResult.Created syncResult,
                          PushResult.Updated = sync_PushResult.Updated syncResult,
                          Deleted = [],
                          PushResult.Unchanged = sync_PushResult.Unchanged syncResult,
                          Errors = []\<rparr>, w2))))"

definition DefaultPlugin_Compare ::
  "('c, 'w) sync_api \<Rightarrow> (any \<Rightarrow> string) \<Rightarrow> ((string \<times> Flag) list \<Rightarrow> (string \<times> Flag) list)
     \<Rightarrow> ((string \<times> Flag) list \<Rightarrow> (string \<times> Flag) list)
     \<Rightarrow> 'c DefaultPlugin \<Rightarrow> Flagset \<Rightarrow> CompareOptions \<Rightarrow> 'w
     \<Rightarrow> (error + CompareResult) \<times> 'w" where
  "DefaultPlugin_Compare api fv ordL ordR p local opts w =
     (case DefaultPlugin.client p of
        None \<Rightarrow> (Inl (Errorf ''plugin not configured: call Configure() first''), w)
      | Some c \<Rightarrow>
          (case PullFlags api c (ctx_or_background (CompareOptions.Context opts)) w of
             (Inl err, w1) \<Rightarrow> (Inl (ErrorfW ''failed to fetch remote flags: %w'' err), w1)
           | (Inr remoteFlags, w1) \<Rightarrow>
               (Inr (compare_maps fv ordL ordR
                       (flag_map (Flags local)) (flag_map (Flags remoteFlags))), w1)))"

section \<open>The DevCycle plugin (\<open>internal/plugin/builtin/devcycle/plugin.go\<close>)\<close>

record Plugin =
  config :: Config
  client :: "Client option"
  project :: string
  environment :: string

definition NewPlugin :: Plugin where
  "NewPlugin = \<lparr>Plugin.config = Config_zero, Plugin.client = None, project = [],
                 environment = []\<rparr>"

text \<open>\<open>v, ok := config.Custom[k].(string)\<close>\<close>

definition custom_string :: "Config \<Rightarrow> string \<Rightarrow> string option" where
  "custom_string cfg k = (case Custom cfg k of Some (AString s) \<Rightarrow> Some s | _ \<Rightarrow> None)"

definition Configure :: "Config \<Rightarrow> Plugin \<Rightarrow> error option \<times> Plugin" where
  "Configure cfg p =
     (let p1 = p\<lparr>Plugin.config := cfg\<rparr>;
          p2 = (case custom_string cfg ''project'' of
                  Some s \<Rightarrow> p1\<lparr>project := s\<rparr>
                | None \<Rightarrow> p1);
          p3 = (case custom_string cfg ''environment'' of
                  Some s \<Rightarrow> p2\<lparr>environment := s\<rparr>
                | None \<Rightarrow> p2\<lparr>environment := ''development''\<rparr>);
          cid = (case custom_string cfg ''clientId'' of Some s \<Rightarrow> s | None \<Rightarrow> []);
          secret = (case custom_string cfg ''clientSecret'' of Some s \<Rightarrow> s | None \<Rightarrow> [])
      in case NewClient cid secret of
           Inl err \<Rightarrow> (Some (ErrorfW ''failed to create DevCycle client: %w'' err), p3)
         | Inr c \<Rightarrow> (None, p3\<lparr>Plugin.client := Some c\<rparr>))"

definition ValidateConfig :: "Plugin \<Rightarrow> error option" where
  "ValidateConfig p =
     (if project p = [] then Some (ErrConfigInvalid ''devcycle'' ''project is required'')
      else if Plugin.client p = None then
        Some (ErrConfigInvalid ''devcycle''
          ''client not configured - ensure clientId and clientSecret are provided'')
      else None)"

definition devCycleTypeToFlagType :: "string \<Rightarrow> error + FlagType" where
  "devCycleTypeToFlagType dcType =
     (if dcType = ''Boolean'' then Inr BoolType
      else if dcType = ''String'' then Inr StringType
      else if dcType = ''Number'' then Inr FloatType
      else if dcType = ''JSON'' then Inr ObjectType
      else Inl (ErrorfS ''unsupported DevCycle type: %s'' dcType))"

fun flagTypeToDevCycleType :: "FlagType \<Rightarrow> string" where
  "flagTypeToDevCycleType BoolType = ''Boolean''"
| "flagTypeToDevCycleType StringType = ''String''"
| "flagTypeToDevCycleType IntType = ''Number''"
| "flagTypeToDevCycleType FloatType = ''Number''"
| "flagTypeToDevCycleType ObjectType = ''JSON''"
| "flagTypeToDevCycleType UnknownFlagType = ''String''"

definition variableToFlag :: "Variable \<Rightarrow> error + Flag" where
  "variableToFlag v =
     (case devCycleTypeToFlagType (Variable.Type v) of
        Inl err \<Rightarrow> Inl err
      | Inr flagType \<Rightarrow>
          Inr \<lparr>Flag.Key = Variable.Key v, Flag.Type = flagType,
               Flag.Description = Variable.Description v,
               Flag.DefaultValue = Variable.DefaultValue v, Expiry = []\<rparr>)"

definition flagToVariable :: "Flag \<Rightarrow> string \<Rightarrow> Variable" where
  "flagToVariable flag proj =
     \<lparr>Variable.ID = [], Variable.Key = Flag.Key flag, Variable.Name = [],
      Variable.Type = flagTypeToDevCycleType (Flag.Type flag),
      Variable.Description = Flag.Description flag,
      Variable.DefaultValue = Flag.DefaultValue flag,
      CreatedAt = [], UpdatedAt = []\<rparr>"

definition variableNeedsUpdate :: "(any \<Rightarrow> string) \<Rightarrow> Variable \<Rightarrow> Variable \<Rightarrow> bool" where
  "variableNeedsUpdate fv existing new =
     (if Variable.Type existing \<noteq> Variable.Type new then True
      else if Variable.Description existing \<noteq> Variable.Description new then True
      else fv (Variable.DefaultValue existing) \<noteq> fv (Variable.DefaultValue new))"

text \<open>The conversion loop of \<open>Pull\<close>: a variable of an unsupported type is skipped.\<close>

fun variables_to_flags :: "Variable list \<Rightarrow> Flag list \<Rightarrow> Flag list" where
  "variables_to_flags [] flags = flags"
| "variables_to_flags (v # vs) flags =
     (case variableToFlag v of
        Inl err \<Rightarrow> variables_to_flags vs flags
      | Inr flag \<Rightarrow> variables_to_flags vs (flags @ [flag]))"

definition Pull ::
  "'w host \<Rightarrow> Plugin \<Rightarrow> PullOptions \<Rightarrow> 'w env \<Rightarrow> (error + Flagset) \<times> Plugin \<times> 'w env" where
  "Pull h p opts e =
     (case ValidateConfig p of
        Some err \<Rightarrow> (Inl err, p, e)
      | None \<Rightarrow>
          (case Plugin.client p of
             None \<Rightarrow> (Inl (Panic ''nil pointer dereference''), p, e)
           | Some c \<Rightarrow>
               (case GetVariables h (ctx_or_background (PullOptions.Context opts))
                       (project p) c e of
                  (Inl err, c1, e1) \<Rightarrow>
                    (Inl (ErrorfW ''failed to fetch DevCycle variables: %w'' err),
                     p\<lparr>Plugin.client := Some c1\<rparr>, e1)
                | (Inr variables, c1, e1) \<Rightarrow>
                    (Inr \<lparr>Flags = variables_to_flags variables []\<rparr>,
                     p\<lparr>Plugin.client := Some c1\<rparr>, e1))))"

text \<open>\<open>remoteMap\<close> of \<open>Push\<close>: the existing variables by key.\<close>

definition variable_map :: "Variable list \<Rightarrow> (string \<rightharpoonup> Variable)" where
  "variable_map remoteVars = fold (\<lambda>v m. m(Variable.Key v \<mapsto> v)) remoteVars Map.empty"

text \<open>
  The body of the loop of \<open>Push\<close> for one local flag, on the result so far and the
  client.  A failed call appends to \<open>Errors\<close> and goes on to the next flag
  (\<open>continue\<close>).
\<close>

definition push_flag ::
  "'w host \<Rightarrow> (any \<Rightarrow> string) \<Rightarrow> go_context \<Rightarrow> string \<Rightarrow> bool \<Rightarrow> (string \<rightharpoonup> Variable)
     \<Rightarrow> Flag \<Rightarrow> PushResult \<times> Client \<times> 'w env \<Rightarrow> PushResult \<times> Client \<times> 'w env" where
  "push_flag h fv cx proj dryRun remoteMap flag st =
     (case st of
        (result, c, e) \<Rightarrow>
          (let variable = flagToVariable flag proj in
           case remoteMap (Flag.Key flag) of
             Some existingVar \<Rightarrow>
               if variableNeedsUpdate fv existingVar variable then
                 if \<not> dryRun then
                   (case UpdateVariable h cx proj (Flag.Key flag) variable c e of
                      (Some err, c1, e1) \<Rightarrow>
                        (result\<lparr>Errors := Errors result
                                   @ [ErrorfSW ''failed to update %s: %w'' (Flag.Key flag) err]\<rparr>,
                         c1, e1)
                    | (None, c1, e1) \<Rightarrow>
                        (result\<lparr>PushResult.Updated := PushResult.Updated result @ [flag]\<rparr>,
                         c1, e1))
                 else
                   (result\<lparr>PushResult.Updated := PushResult.Updated result @ [flag]\<rparr>, c, e)
               else
                 (result\<lparr>PushResult.Unchanged := PushResult.Unchanged result @ [flag]\<rparr>, c, e)
           | None \<Rightarrow>
               if \<not> dryRun then
                 (case CreateFeatureWithVariable h cx proj variable c e of
                    (Some err, c1, e1) \<Rightarrow>
                      (result\<lparr>Errors := Errors result
                                 @ [ErrorfSW ''failed to create %s: %w'' (Flag.Key flag) err]\<rparr>,
                       c1, e1)
                  | (None, c1, e1) \<Rightarrow>
                      (result\<lparr>PushResult.Created := PushResult.Created result @ [flag]\<rparr>,
                       c1, e1))
               else
                 (result\<lparr>PushResult.Created := PushResult.Created result @ [flag]\<rparr>, c, e)))"

fun push_flags ::
  "'w host \<Rightarrow> (any \<Rightarrow> string) \<Rightarrow> go_context \<Rightarrow> string \<Rightarrow> bool \<Rightarrow> (string \<rightharpoonup> Variable)
     \<Rightarrow> Flag list \<Rightarrow> PushResult \<times> Client \<times> 'w env \<Rightarrow> PushResult \<times> Client \<times> 'w env" where
  "push_flags h fv cx proj dryRun remoteMap [] st = st"
| "push_flags h fv cx proj dryRun remoteMap (flag # flags) st =
     push_flags h fv cx proj dryRun remoteMap flags
       (push_flag h fv cx proj dryRun remoteMap flag st)"

definition Push ::
  "'w host \<Rightarrow> (any \<Rightarrow> string) \<Rightarrow> Plugin \<Rightarrow> Flagset \<Rightarrow> PushOptions \<Rightarrow> 'w env
     \<Rightarrow> (error + PushResult) \<times> Plugin \<times> 'w env" where
  "Push h fv p local opts e =
     (case ValidateConfig p of
        Some err \<Rightarrow> (Inl err, p, e)
      | None \<Rightarrow>
          (case Plugin.client p of
             None \<Rightarrow> (Inl (Panic ''nil pointer dereference''), p, e)
           | Some c \<Rightarrow>
               (let cx = ctx_or_background (PushOptions.Context opts) in
                case GetVariables h cx (project p) c e of
                  (Inl err, c1, e1) \<Rightarrow>
                    (Inl (ErrorfW ''failed to fetch existing DevCycle variables: %w'' err),
                     p\<lparr>Plugin.client := Some c1\<rparr>, e1)
                | (Inr remoteVars, c1, e1) \<Rightarrow>
                    (case push_flags h fv cx (project p) (DryRun opts)
                            (variable_map remoteVars) (Flags local)
                            (PushResult_zero, c1, e1) of
                       (result, c2, e2) \<Rightarrow>
                         (Inr result, p\<lparr>Plugin.client := Some c2\<rparr>, e2)))))"

text \<open>\<open>remoteMap\<close> of \<open>Compare\<close>: the remote variables that convert, as flags by key.\<close>

definition remote_flag_map :: "Variable list \<Rightarrow> (string \<times> Flag) list" where
  "remote_flag_map remoteVars =
     fold (\<lambda>v m. case variableToFlag v of
                    Inl err \<Rightarrow> m
                  | Inr flag \<Rightarrow> AList.update (Flag.Key flag) flag m) remoteVars []"

definition Compare ::
  "'w host \<Rightarrow> (any \<Rightarrow> string) \<Rightarrow> ((string \<times> Flag) list \<Rightarrow> (string \<times> Flag) list)
     \<Rightarrow> ((string \<times> Flag) list \<Rightarrow> (string \<times> Flag) list)
     \<Rightarrow> Plugin \<Rightarrow> Flagset \<Rightarrow> CompareOptions \<Rightarrow> 'w env
     \<Rightarrow> (error + CompareResult) \<times> Plugin \<times> 'w env" where
  "Compare h fv ordL ordR p local opts e =
     (case ValidateConfig p of
        Some err \<Rightarrow> (Inl err, p, e)
      | None \<Rightarrow>
          (case Plugin.client p of
             None \<Rightarrow> (Inl (Panic ''nil pointer dereference''), p, e)
           | Some c \<Rightarrow>
               (case GetVariables h (ctx_or_background (CompareOptions.Context opts))
                       (project p) c e of
                  (Inl err, c1, e1) \<Rightarrow>
                    (Inl (ErrorfW ''failed to fetch DevCycle variables: %w'' err),
                     p\<lparr>Plugin.client := Some c1\<rparr>, e1)
                | (Inr remoteVars, c1, e1) \<Rightarrow>
                    (Inr (compare_maps fv ordL ordR
                            (flag_map (Flags local)) (remote_flag_map remoteVars)),
                     p\<lparr>Plugin.client := Some c1\<rparr>, e1))))"

section \<open>The plugin registry (\<open>internal/plugin/manager.go\<close>)\<close>

text \<open>
  A plugin is a value of a type \<open>'p\<close> with its method \<open>Metadata\<close>, here \<open>md\<close>; a
  \<open>PluginFactory\<close> is a constructor without arguments.  The registry's map is an
  association list with distinct keys; its lock is not modelled.
\<close>

record 'p PluginInfo =
  Name :: string
  Description :: string
  Stability :: Stability
  Factory :: "unit \<Rightarrow> 'p"

record 'p Manager =
  plugins :: "(string \<times> 'p PluginInfo) list"

definition NewManager :: "'p Manager" where
  "NewManager = \<lparr>plugins = []\<rparr>"

definition listPluginNames :: "'p Manager \<Rightarrow> string list" where
  "listPluginNames m = sort (map fst (plugins m))"

definition Register ::
  "('p \<Rightarrow> Metadata) \<Rightarrow> (unit \<Rightarrow> 'p) \<Rightarrow> 'p Manager \<Rightarrow> error option \<times> 'p Manager" where
  "Register md factory m =
     (let plugin = factory ();
          meta = md plugin
      in if Metadata.Name meta = [] then (Some (Errorf ''plugin name cannot be empty''), m)
         else if map_of (plugins m) (Metadata.Name meta) \<noteq> None then
           (Some (ErrorfS ''plugin %q is already registered'' (Metadata.Name meta)), m)
         else
           (None,
            m\<lparr>plugins :=
                 AList.update (Metadata.Name meta)
                   \<lparr>PluginInfo.Name = Metadata.Name meta,
                    PluginInfo.Description = Metadata.Description meta,
                    PluginInfo.Stability = Metadata.Stability meta,
                    Factory = factory\<rparr>
                   (plugins m)\<rparr>))"

definition Get :: "'p Manager \<Rightarrow> string \<Rightarrow> error + 'p" where
  "Get m name =
     (case map_of (plugins m) name of
        None \<Rightarrow>
          Inl (ErrorfSL ''plugin %q not found. Available plugins: %v'' name (listPluginNames m))
      | Some info \<Rightarrow> Inr (Factory info ()))"

definition GetInfo :: "'p Manager \<Rightarrow> string \<Rightarrow> error + 'p PluginInfo" where
  "GetInfo m name =
     (case map_of (plugins m) name of
        None \<Rightarrow> Inl (ErrorfS ''plugin %q not found'' name)
      | Some info \<Rightarrow> Inr info)"

definition List :: "'p Manager \<Rightarrow> string list" where
  "List m = listPluginNames m"

definition HasPlugin :: "'p Manager \<Rightarrow> string \<Rightarrow> bool" where
  "HasPlugin m name = (map_of (plugins m) name \<noteq> None)"

section \<open>The manifest document (\<open>Flagset.MarshalJSON\<close>, \<open>Flagset.UnmarshalJSON\<close>)\<close>

text \<open>
  Both methods go through the anonymous struct \<open>manifest\<close>, a Go map from flag key to
  an entry.  \<open>encoding/json\<close> itself is a parameter: \<open>json_Marshal\<close> writes a manifest to
  a document of a type \<open>'d\<close> and \<open>json_Unmarshal\<close> reads one.
\<close>

record manifest_flag =
  FlagType :: string
  Description :: string
  DefaultValue :: any
  Expiry :: string

record 'd json_codec =
  json_Marshal :: "(string \<times> manifest_flag) list \<Rightarrow> error + 'd"
  json_Unmarshal :: "'d \<Rightarrow> error + (string \<times> manifest_flag) list"

text \<open>The loop of \<open>UnmarshalJSON\<close> over the entries of \<open>manifest.Flags\<close>; it returns at
  the first unknown flag type, with the flags appended so far.\<close>

fun unmarshal_flags ::
  "(string \<times> manifest_flag) list \<Rightarrow> Flag list \<Rightarrow> error option \<times> Flag list" where
  "unmarshal_flags [] flags = (None, flags)"
| "unmarshal_flags ((key, flag) # rest) flags =
     (case ParseFlagType (FlagType flag) of
        Inl err \<Rightarrow> (Some err, flags)
      | Inr flagType \<Rightarrow>
          unmarshal_flags rest
            (flags @ [\<lparr>Flag.Key = key, Flag.Type = flagType,
                       Flag.Description = manifest_flag.Description flag,
                       Flag.DefaultValue = manifest_flag.DefaultValue flag,
                       Flag.Expiry = manifest_flag.Expiry flag\<rparr>]))"

text \<open>
  \<open>sort.Slice\<close> by key is modelled by the insertion sort \<open>sort_key\<close>: on keys that
  come from a map, hence distinct, every sort returns the same list.
\<close>

definition UnmarshalJSON ::
  "'d json_codec \<Rightarrow> ((string \<times> manifest_flag) list \<Rightarrow> (string \<times> manifest_flag) list)
     \<Rightarrow> 'd \<Rightarrow> Flagset \<Rightarrow> error option \<times> Flagset" where
  "UnmarshalJSON js ord data fs =
     (case json_Unmarshal js data of
        Inl err \<Rightarrow> (Some err, fs)
      | Inr manifest \<Rightarrow>
          (case unmarshal_flags (ord manifest) (Flags fs) of
             (Some err, flags) \<Rightarrow> (Some err, fs\<lparr>Flags := flags\<rparr>)
           | (None, flags) \<Rightarrow> (None, fs\<lparr>Flags := sort_key Flag.Key flags\<rparr>)))"

definition manifest_entry :: "Flag \<Rightarrow> manifest_flag" where
  "manifest_entry flag =
     \<lparr>FlagType = FlagType_String (Flag.Type flag),
      manifest_flag.Description = Flag.Description flag,
      manifest_flag.DefaultValue = Flag.DefaultValue flag,
      manifest_flag.Expiry = Flag.Expiry flag\<rparr>"

definition manifest_of :: "Flagset \<Rightarrow> (string \<times> manifest_flag) list" where
  "manifest_of fs =
     fold (\<lambda>flag m. AList.update (Flag.Key flag) (manifest_entry flag) m) (Flags fs) []"

definition MarshalJSON :: "'d json_codec \<Rightarrow> Flagset \<Rightarrow> error + 'd" where
  "MarshalJSON js fs = json_Marshal js (manifest_of fs)"

text \<open>The values \<open>encoding/json\<close> decodes into an \<open>any\<close>: every number is a
  \<open>float64\<close>.\<close>

fun json_value :: "any \<Rightarrow> bool" where
  "json_value (AInt i) = False"
| "json_value (ASlice xs) = list_all json_value xs"
| "json_value (AMap kvs) = list_all (\<lambda>kv. json_value (snd kv)) kvs"
| "json_value v = True"

section \<open>Properties of results\<close>

text \<open>
  A comparison result is complete for a local and a remote flag list when no key occurs
  twice among \<open>Added\<close>, \<open>Modified\<close> and \<open>Unchanged\<close>, these three cover exactly the
  local keys, and \<open>Removed\<close> holds exactly the remote keys that are not local.
\<close>

definition diff_complete :: "Flag list \<Rightarrow> Flag list \<Rightarrow> CompareResult \<Rightarrow> bool" where
  "diff_complete local remote res \<longleftrightarrow>
     distinct (map Flag.Key (Added res) @ map FlagDiff.Key (Modified res)
                 @ map Flag.Key (CompareResult.Unchanged res))
     \<and> set (map Flag.Key (Added res)) \<union> set (map FlagDiff.Key (Modified res))
           \<union> set (map Flag.Key (CompareResult.Unchanged res))
         = set (map Flag.Key local)
     \<and> set (map Flag.Key (Removed res)) = set (map Flag.Key remote) - set (map Flag.Key local)"

text \<open>The invariant of a map built from flags: distinct keys, each flag under its own
  key.\<close>

definition keyed :: "(string \<times> Flag) list \<Rightarrow> bool" where
  "keyed m \<longleftrightarrow> distinct (map fst m) \<and> list_all (\<lambda>kf. Flag.Key (snd kf) = fst kf) m"



text \<open>
  Every local flag a push has gone through is accounted for once: it is in \<open>Created\<close>,
  \<open>Updated\<close> or \<open>Unchanged\<close>, or an entry of \<open>Errors\<close> carries its key.
\<close>

fun failed_flag_key :: "error \<Rightarrow> string option" where
  "failed_flag_key (ErrorfSW f k err) = Some k"
| "failed_flag_key e = None"

definition accounted_keys :: "PushResult \<Rightarrow> string option multiset" where
  "accounted_keys res =
     mset (map (\<lambda>f. Some (Flag.Key f))
             (PushResult.Created res @ PushResult.Updated res @ PushResult.Unchanged res))
     + mset (map failed_flag_key (Errors res))"

text \<open>
  A dry run covers a push that issued the calls: what the push created or updated is, in
  order, among what the dry run planned, the unchanged flags are the same, and every
  planned flag missing from the push has an error in its place.
\<close>

definition dry_covers :: "PushResult \<Rightarrow> PushResult \<Rightarrow> bool" where
  "dry_covers plan run \<longleftrightarrow>
     subseq (PushResult.Created run) (PushResult.Created plan)
     \<and> subseq (PushResult.Updated run) (PushResult.Updated plan)
     \<and> PushResult.Unchanged run = PushResult.Unchanged plan
     \<and> length (PushResult.Created plan) + length (PushResult.Updated plan)
         = length (PushResult.Created run) + length (PushResult.Updated run)
           + length (Errors run)"

text \<open>The flag the loop of \<open>UnmarshalJSON\<close> appends for one entry of the manifest whose
  flag type parses.\<close>

definition flag_of_entry :: "string \<times> manifest_flag \<Rightarrow> Flag" where
  "flag_of_entry entry =
     \<lparr>Flag.Key = fst entry,
      Flag.Type = (case ParseFlagType (FlagType (snd entry)) of
                     Inl err \<Rightarrow> UnknownFlagType | Inr flagType \<Rightarrow> flagType),
      Flag.Description = manifest_flag.Description (snd entry),
      Flag.DefaultValue = manifest_flag.DefaultValue (snd entry),
      Flag.Expiry = manifest_flag.Expiry (snd entry)\<rparr>"

section \<open>Concrete inputs\<close>

text \<open>Plugins for the registry that are nothing but their metadata.\<close>

definition mock_plugin :: "string \<Rightarrow> string \<Rightarrow> Metadata" where
  "mock_plugin n v =
     \<lparr>Metadata.Name = n, Version = v, Metadata.Description = ''A mock plugin for testing'',
      Metadata.Stability = StabilityExperimental,
      Capabilities = [CapabilityPull, CapabilityPush, CapabilityCompare],
      ConfigSchema = None\<rparr>"

text \<open>
  A DevCycle backend in memory, for the project \<open>proj\<close>: the token endpoint issues a
  token for one hour, \<open>GET\<close> lists the stored variables, \<open>POST\<close> of a feature stores its
  variables unless its key is refused, and \<open>PATCH\<close> of a variable applies exactly the
  fields its body carries, unless its key is refused.  Each reading of the clock advances it.
\<close>

record backend =
  store :: "Variable list"
  clock :: int
  refused :: "string list"

definition patch_variable :: "(string \<times> any) list \<Rightarrow> Variable \<Rightarrow> Variable" where
  "patch_variable kvs v =
     (let v1 = (case map_of kvs ''description'' of
                  Some (AString d) \<Rightarrow> v\<lparr>Variable.Description := d\<rparr> | _ \<Rightarrow> v);
          v2 = (case map_of kvs ''type'' of
                  Some (AString t) \<Rightarrow> v1\<lparr>Variable.Type := t\<rparr> | _ \<Rightarrow> v1)
      in case map_of kvs ''defaultValue'' of
           Some x \<Rightarrow> v2\<lparr>Variable.DefaultValue := x\<rparr> | None \<Rightarrow> v2)"

definition backend_Do :: "http_request \<Rightarrow> backend \<Rightarrow> (error + http_response) \<times> backend" where
  "backend_Do r w =
     (if URL r = authURL then
        (Inr \<lparr>StatusCode = 200, Body = ''{token}'',
              Document = TokenJSON \<lparr>AccessToken = ''t1'', TokenType = ''Bearer'',
                                      ExpiresIn = 3600\<rparr>\<rparr>, w)
      else
        (case body r of
           NoBody \<Rightarrow>
             (Inr \<lparr>StatusCode = 200, Body = ''[variables]'',
                   Document = VariablesJSON (store w)\<rparr>, w)
         | FormBody form \<Rightarrow>
             (Inr \<lparr>StatusCode = 404, Body = ''not found'', Document = NotJSON\<rparr>, w)
         | JSONBody (PFeature f) \<Rightarrow>
             if Feature.Key f \<in> set (refused w) then
               (Inr \<lparr>StatusCode = 400, Body = ''refused'', Document = NotJSON\<rparr>, w)
             else
               (Inr \<lparr>StatusCode = 201, Body = ''{feature}'', Document = NotJSON\<rparr>,
                w\<lparr>store := store w @ Variables f\<rparr>)
         | JSONBody (PMap kvs) \<Rightarrow>
             if URL r \<in> set (map (\<lambda>k. apiURL @ ''/v1/projects/proj/variables/'' @ k)
                                (refused w)) then
               (Inr \<lparr>StatusCode = 400, Body = ''refused'', Document = NotJSON\<rparr>, w)
             else
               (Inr \<lparr>StatusCode = 200, Body = ''{variable}'', Document = NotJSON\<rparr>,
                w\<lparr>store :=
                      map (\<lambda>v. if URL r = apiURL @ ''/v1/projects/proj/variables/'' @ Variable.Key v
                                then patch_variable kvs v else v) (store w)\<rparr>)))"

definition backend_host :: "backend host" where
  "backend_host =
     \<lparr>Do = backend_Do,
      Now = (\<lambda>w. (clock w, w\<lparr>clock := clock w + 1\<rparr>)),
      NewRequest = (\<lambda>m u. None)\<rparr>"

definition bool_flag :: "string \<Rightarrow> bool \<Rightarrow> Flag" where
  "bool_flag k b =
     \<lparr>Flag.Key = k, Flag.Type = BoolType, Flag.Description = [],
      Flag.DefaultValue = ABool b, Flag.Expiry = []\<rparr>"

definition remote_variable :: "string \<Rightarrow> string \<Rightarrow> any \<Rightarrow> Variable" where
  "remote_variable k t d =
     \<lparr>Variable.ID = ''id'', Variable.Key = k, Variable.Name = k, Variable.Type = t,
      Variable.Description = [], Variable.DefaultValue = d,
      CreatedAt = ''2025-01-01'', UpdatedAt = ''2025-01-01''\<rparr>"

definition proj_config :: Config where
  "proj_config =
     \<lparr>BaseURL = [], AuthToken = [],
      Custom = [''project'' \<mapsto> AString ''proj'', ''clientId'' \<mapsto> AString ''id'',
                ''clientSecret'' \<mapsto> AString ''secret'']\<rparr>"

definition proj_plugin :: Plugin where
  "proj_plugin = snd (Configure proj_config NewPlugin)"

definition proj_client :: Client where
  "proj_client = \<lparr>clientID = ''id'', clientSecret = ''secret'', accessToken = [],
                   tokenExpiry = zero_time\<rparr>"

definition start :: "Variable list \<Rightarrow> string list \<Rightarrow> backend env" where
  "start vars no = \<lparr>world = \<lparr>store = vars, clock = 1000, refused = no\<rparr>, sent = []\<rparr>"

definition static_sync :: "Flagset \<Rightarrow> (unit, unit) sync_api" where
  "static_sync remote =
     \<lparr>sync_NewClient = (\<lambda>u t. Inr ()),
      PullFlags = (\<lambda>c cx w. (Inr remote, w)),
      PushFlags = (\<lambda>c cx local remote dry w.
         (Inr \<lparr>sync_PushResult.Created = [], sync_PushResult.Updated = [],
               sync_PushResult.Unchanged = []\<rparr>, w))\<rparr>"


definition local_ab :: Flagset where
  "local_ab = \<lparr>Flags = [bool_flag ''a'' True, bool_flag ''b'' False]\<rparr>"

definition remote_acd :: "Variable list" where
  "remote_acd = [remote_variable ''a'' ''Boolean'' (ABool False),
                 remote_variable ''c'' ''Boolean'' (ABool False),
                 remote_variable ''d'' ''Percentage'' (AInt 5)]"

text \<open>A number flag; its default value may be an integer or a \<open>float64\<close>.\<close>

definition number_flag :: "string \<Rightarrow> any \<Rightarrow> Flag" where
  "number_flag k d =
     \<lparr>Flag.Key = k, Flag.Type = FloatType, Flag.Description = [],
      Flag.DefaultValue = d, Flag.Expiry = []\<rparr>"

text \<open>The client and the state of the network once the variables have been fetched
  from \<open>start vars no\<close>.\<close>

definition token_client :: Client where
  "token_client = proj_client\<lparr>accessToken := ''t1'', tokenExpiry := 1000 + token_lifetime 3600\<rparr>"

definition fetched :: "Variable list \<Rightarrow> string list \<Rightarrow> backend env" where
  "fetched vars no =
     \<lparr>world = \<lparr>store = vars, clock = 1001, refused = no\<rparr>,
      sent = [auth_request Background proj_client,
              api_request Background ''GET'' ''/v1/projects/proj/variables'' None token_client]\<rparr>"


text \<open>
  A codec whose documents are the manifests themselves: it writes the entries in the
  order of their keys, as \<open>encoding/json\<close> writes a map, and reads a document when its
  keys are distinct and its values are JSON values.
\<close>

definition list_codec :: "(string \<times> manifest_flag) list json_codec" where
  "list_codec =
     \<lparr>json_Marshal = (\<lambda>m. Inr (sort_key fst m)),
      json_Unmarshal = (\<lambda>d.
         if distinct (map fst d)
            \<and> list_all (\<lambda>kv. json_value (manifest_flag.DefaultValue (snd kv))) d
         then Inr d else Inl (Errorf ''invalid document''))\<rparr>"

definition manifest_ba :: "(string \<times> manifest_flag) list" where
  "manifest_ba =
     [(''b'', \<lparr>FlagType = ''boolean'', manifest_flag.Description = ''B'',
               manifest_flag.DefaultValue = ABool True, manifest_flag.Expiry = []\<rparr>),
      (''a'', \<lparr>FlagType = ''Number'', manifest_flag.Description = ''A'',
               manifest_flag.DefaultValue = AFloat 1, manifest_flag.Expiry = ''2025-12-31''\<rparr>)]"

definition flagset_ab :: Flagset where
  "flagset_ab =
     \<lparr>Flags = [\<lparr>Flag.Key = ''a'', Flag.Type = FloatType, Flag.Description = ''A'',
                 Flag.DefaultValue = AFloat 1, Flag.Expiry = ''2025-12-31''\<rparr>,
                \<lparr>Flag.Key = ''b'', Flag.Type = BoolType, Flag.Description = ''B'',
                 Flag.DefaultValue = ABool True, Flag.Expiry = []\<rparr>]\<rparr>"

section \<open>Maps of flags and the two loops of \<open>Compare\<close>\<close>

lemma keyed_Nil: "keyed []"
  by (simp add: keyed_def)

lemma list_all_update:
  "P (k, v) \<Longrightarrow> list_all P m \<Longrightarrow> list_all P (AList.update k v m)"
  by (induction m) auto

lemma keyed_update: "keyed m \<Longrightarrow> keyed (AList.update (Flag.Key f) f m)"
  by (simp add: keyed_def distinct_update list_all_update)

lemma keyed_fold_update:
  "keyed m \<Longrightarrow> keyed (fold (\<lambda>flag m. AList.update (Flag.Key flag) flag m) flags m)"
  by (induction flags arbitrary: m) (simp_all add: keyed_update)

lemma keys_fold_update:
  "fst ` set (fold (\<lambda>flag m. AList.update (Flag.Key flag) flag m) flags m)
     = fst ` set m \<union> Flag.Key ` set flags"
  by (induction flags arbitrary: m) (auto simp add: dom_update)

lemma keyed_flag_map: "keyed (flag_map flags)"
  by (simp add: flag_map_def keyed_fold_update keyed_Nil)

lemma keys_flag_map: "set (map fst (flag_map flags)) = set (map Flag.Key flags)"
  using keys_fold_update [of flags "[]"] by (simp add: flag_map_def)

lemma fold_compare_local:
  assumes "list_all (\<lambda>kf. Flag.Key (snd kf) = fst kf) es"
  shows "mset (map Flag.Key (Added (fold (compare_local fv rm) es r)))
           + mset (map FlagDiff.Key (Modified (fold (compare_local fv rm) es r)))
           + mset (map Flag.Key (CompareResult.Unchanged (fold (compare_local fv rm) es r)))
         = mset (map Flag.Key (Added r)) + mset (map FlagDiff.Key (Modified r))
           + mset (map Flag.Key (CompareResult.Unchanged r)) + mset (map fst es)
         \<and> Removed (fold (compare_local fv rm) es r) = Removed r"
  using assms
proof (induction es arbitrary: r)
  case Nil
  then show ?case by simp
next
  case (Cons e es)
  obtain k f where e: "e = (k, f)" by (cases e)
  from Cons.prems e have kf: "Flag.Key f = k" and rest: "list_all (\<lambda>kf. Flag.Key (snd kf) = fst kf) es"
    by simp_all
  show ?case
    using Cons.IH [OF rest, of "compare_local fv rm e r"] kf
    by (simp add: e compare_local_def split: option.splits)
qed

lemma fold_compare_remote:
  assumes "list_all (\<lambda>kf. Flag.Key (snd kf) = fst kf) es"
  shows "map Flag.Key (Removed (fold (compare_remote lm) es r))
           = map Flag.Key (Removed r) @ filter (\<lambda>k. map_of lm k = None) (map fst es)
         \<and> Added (fold (compare_remote lm) es r) = Added r
         \<and> Modified (fold (compare_remote lm) es r) = Modified r
         \<and> CompareResult.Unchanged (fold (compare_remote lm) es r) = CompareResult.Unchanged r"
  using assms
proof (induction es arbitrary: r)
  case Nil
  then show ?case by simp
next
  case (Cons e es)
  obtain k f where e: "e = (k, f)" by (cases e)
  from Cons.prems e have kf: "Flag.Key f = k" and rest: "list_all (\<lambda>kf. Flag.Key (snd kf) = fst kf) es"
    by simp_all
  show ?case
    using Cons.IH [OF rest, of "compare_remote lm e r"] kf
    by (simp add: e compare_remote_def split: option.splits)
qed

lemma keyed_perm:
  assumes "mset es = mset m" and "keyed m"
  shows "keyed es"
proof -
  from assms(1) have "mset (map fst es) = mset (map fst m)" by simp
  then have "distinct (map fst es) = distinct (map fst m)"
    by (rule mset_eq_imp_distinct_iff)
  moreover from assms(1) have "set es = set m" by (rule mset_eq_setD)
  ultimately show ?thesis
    using assms(2) by (simp add: keyed_def list_all_iff)
qed

lemma compare_maps_complete:
  assumes ordL: "mset (ordL lm) = mset lm" and ordR: "mset (ordR rm) = mset rm"
    and lm: "keyed lm" "set (map fst lm) = set (map Flag.Key local)"
    and rm: "keyed rm" "set (map fst rm) = set (map Flag.Key remote)"
  shows "diff_complete local remote (compare_maps fv ordL ordR lm rm)"
proof -
  let ?r1 = "fold (compare_local fv rm) (ordL lm) CompareResult_zero"
  let ?r2 = "fold (compare_remote lm) (ordR rm) ?r1"
  have kl: "keyed (ordL lm)" using ordL lm(1) by (rule keyed_perm)
  have kr: "keyed (ordR rm)" using ordR rm(1) by (rule keyed_perm)
  from kl have l1: "list_all (\<lambda>kf. Flag.Key (snd kf) = fst kf) (ordL lm)"
    and dl: "distinct (map fst (ordL lm))" by (simp_all add: keyed_def)
  from kr have l2: "list_all (\<lambda>kf. Flag.Key (snd kf) = fst kf) (ordR rm)"
    by (simp add: keyed_def)
  note a = fold_compare_local [OF l1, of fv rm CompareResult_zero]
  note b = fold_compare_remote [OF l2, of lm ?r1]
  from a have a1: "mset (map Flag.Key (Added ?r1)) + mset (map FlagDiff.Key (Modified ?r1))
                      + mset (map Flag.Key (CompareResult.Unchanged ?r1))
                    = mset (map fst (ordL lm))"
    and a2: "Removed ?r1 = []"
    by (simp_all add: CompareResult_zero_def)
  from b have b1: "map Flag.Key (Removed ?r2)
                     = map Flag.Key (Removed ?r1) @ filter (\<lambda>k. map_of lm k = None) (map fst (ordR rm))"
    and b2: "Added ?r2 = Added ?r1" and b3: "Modified ?r2 = Modified ?r1"
    and b4: "CompareResult.Unchanged ?r2 = CompareResult.Unchanged ?r1"
    by simp_all
  have m: "mset (map Flag.Key (Added ?r2) @ map FlagDiff.Key (Modified ?r2)
                   @ map Flag.Key (CompareResult.Unchanged ?r2))
           = mset (map fst (ordL lm))"
    unfolding b2 b3 b4 using a1 by (simp add: add.assoc)
  have d: "distinct (map Flag.Key (Added ?r2) @ map FlagDiff.Key (Modified ?r2)
                       @ map Flag.Key (CompareResult.Unchanged ?r2))"
    using mset_eq_imp_distinct_iff [OF m] dl by simp
  have sl: "set (map fst (ordL lm)) = set (map Flag.Key local)"
    using mset_eq_setD [OF ordL] lm(2) by simp
  have sr: "set (map fst (ordR rm)) = set (map Flag.Key remote)"
    using mset_eq_setD [OF ordR] rm(2) by simp
  have s: "set (map Flag.Key (Added ?r2)) \<union> set (map FlagDiff.Key (Modified ?r2))
             \<union> set (map Flag.Key (CompareResult.Unchanged ?r2)) = set (map Flag.Key local)"
    using mset_eq_setD [OF m] sl by (simp add: Un_assoc)
  have none: "\<And>k. (map_of lm k = None) = (k \<notin> set (map Flag.Key local))"
    using lm(2) by (simp add: map_of_eq_None_iff)
  have rmv: "set (map Flag.Key (Removed ?r2))
               = set (map Flag.Key remote) - set (map Flag.Key local)"
  proof -
    have "map Flag.Key (Removed ?r2) = filter (\<lambda>k. map_of lm k = None) (map fst (ordR rm))"
      unfolding b1 a2 by simp
    then have "set (map Flag.Key (Removed ?r2))
                 = {k \<in> set (map fst (ordR rm)). k \<notin> set (map Flag.Key local)}"
      by (simp add: none)
    then show ?thesis using sr by auto
  qed
  show ?thesis
    unfolding diff_complete_def compare_maps_def using d s rmv by blast
qed

lemma fold_update_snoc:
  "fold (\<lambda>flag m. AList.update (Flag.Key flag) flag m) (acc @ [flag]) m0
     = AList.update (Flag.Key flag) flag
         (fold (\<lambda>flag m. AList.update (Flag.Key flag) flag m) acc m0)"
  by simp

lemma remote_flag_map_acc:
  "fold (\<lambda>v m. case variableToFlag v of Inl err \<Rightarrow> m
                | Inr flag \<Rightarrow> AList.update (Flag.Key flag) flag m) vars (flag_map acc)
     = flag_map (variables_to_flags vars acc)"
proof (induction vars arbitrary: acc)
  case Nil
  then show ?case by simp
next
  case (Cons v vars)
  show ?case
  proof (cases "variableToFlag v")
    case (Inl err)
    then show ?thesis using Cons.IH [of acc] by simp
  next
    case (Inr flag)
    have "AList.update (Flag.Key flag) flag (flag_map acc) = flag_map (acc @ [flag])"
      by (simp add: flag_map_def)
    then show ?thesis using Inr Cons.IH [of "acc @ [flag]"] by simp
  qed
qed

lemma remote_flag_map_eq: "remote_flag_map vars = flag_map (variables_to_flags vars [])"
  using remote_flag_map_acc [of vars "[]"] by (simp add: remote_flag_map_def flag_map_def)

lemma compare_flag_maps_complete:
  assumes "\<And>m. mset (ordL m) = mset m" and "\<And>m. mset (ordR m) = mset m"
  shows "diff_complete local remote (compare_maps fv ordL ordR (flag_map local) (flag_map remote))"
  by (rule compare_maps_complete
        [where ordL = ordL and ordR = ordR and lm = "flag_map local" and rm = "flag_map remote",
         OF assms(1) [of "flag_map local"] assms(2) [of "flag_map remote"]
            keyed_flag_map [of local] keys_flag_map [of local]
            keyed_flag_map [of remote] keys_flag_map [of remote]])


section \<open>The concrete inputs, evaluated\<close>

lemma proj_plugin_eq:
  "proj_plugin = \<lparr>Plugin.config = proj_config, Plugin.client = Some proj_client,
                   project = ''proj'', environment = ''development''\<rparr>"
  by (simp add: proj_plugin_def Configure_def NewPlugin_def proj_config_def custom_string_def
      NewClient_def proj_client_def Let_def)

lemma Get_ex:
  "GetVariables backend_host Background ''proj'' proj_client (start vars no)
     = (Inr vars, proj_client\<lparr>accessToken := ''t1'', tokenExpiry := 1000 + token_lifetime 3600\<rparr>,
        \<lparr>world = \<lparr>store = vars, clock = 1001, refused = no\<rparr>,
         sent = [auth_request Background proj_client,
                 api_request Background ''GET'' ''/v1/projects/proj/variables'' None 
                   (proj_client\<lparr>accessToken := ''t1'', tokenExpiry := 1000 + token_lifetime 3600\<rparr>)]\<rparr>)"
  by (simp add: GetVariables_def doRequest_def authenticate_def refresh_token_def
      httpClient_Do_def time_Now_def backend_host_def backend_Do_def start_def proj_client_def
      auth_request_def api_request_def authURL_def apiURL_def)

lemma pulled: "variables_to_flags remote_acd [] = [bool_flag ''a'' False, bool_flag ''c'' False]"
  by (simp add: remote_acd_def remote_variable_def variableToFlag_def devCycleTypeToFlagType_def bool_flag_def)

lemma Get_fetched:
  "GetVariables backend_host Background ''proj'' proj_client (start vars no)
     = (Inr vars, token_client, fetched vars no)"
  by (simp add: Get_ex token_client_def fetched_def)

lemma token_lifetime_hour: "token_lifetime 3600 = 3540000000000"
  by (simp add: token_lifetime_def wrap64_def)

section \<open>Equal flags in the comparison\<close>

lemma map_of_fold_update_other:
  "k \<notin> Flag.Key ` set flags \<Longrightarrow>
     map_of (fold (\<lambda>flag m. AList.update (Flag.Key flag) flag m) flags m) k = map_of m k"
  by (induction flags arbitrary: m) (simp_all add: update_conv')

lemma map_of_fold_update_member:
  "distinct (map Flag.Key flags) \<Longrightarrow> a \<in> set flags \<Longrightarrow>
     map_of (fold (\<lambda>flag m. AList.update (Flag.Key flag) flag m) flags m) (Flag.Key a) = Some a"
proof (induction flags arbitrary: m)
  case Nil
  then show ?case by simp
next
  case (Cons f flags)
  show ?case
  proof (cases "a = f")
    case True
    with Cons.prems have "Flag.Key a \<notin> Flag.Key ` set flags" by auto
    then show ?thesis
      using True by (simp add: map_of_fold_update_other update_conv')
  next
    case False
    with Cons show ?thesis by simp
  qed
qed

lemma map_of_flag_map:
  "distinct (map Flag.Key flags) \<Longrightarrow> a \<in> set flags \<Longrightarrow>
     map_of (flag_map flags) (Flag.Key a) = Some a"
  by (simp add: flag_map_def map_of_fold_update_member)

lemma fold_compare_local_unchanged_mono:
  "set (CompareResult.Unchanged r)
     \<subseteq> set (CompareResult.Unchanged (fold (compare_local fv rm) es r))"
proof (induction es arbitrary: r)
  case Nil
  then show ?case by simp
next
  case (Cons e es)
  have "set (CompareResult.Unchanged r) \<subseteq> set (CompareResult.Unchanged (compare_local fv rm e r))"
    by (cases e) (auto simp add: compare_local_def split: option.splits)
  with Cons.IH [of "compare_local fv rm e r"] show ?case by auto
qed

lemma fold_compare_local_unchanged:
  assumes "(k, f) \<in> set es" and "map_of rm k = Some rf" and "flagsEqual fv f rf"
  shows "f \<in> set (CompareResult.Unchanged (fold (compare_local fv rm) es r))"
  using assms(1)
proof (induction es arbitrary: r)
  case Nil
  then show ?case by simp
next
  case (Cons e es)
  show ?case
  proof (cases "e = (k, f)")
    case True
    have "f \<in> set (CompareResult.Unchanged (compare_local fv rm e r))"
      using True assms(2,3) by (simp add: compare_local_def)
    then show ?thesis
      using fold_compare_local_unchanged_mono [of "compare_local fv rm e r" fv rm es] by auto
  next
    case False
    with Cons.prems have "(k, f) \<in> set es" by simp
    from Cons.IH [OF this] show ?thesis by simp
  qed
qed

lemma equal_flags_unchanged_in_maps:
  assumes eq: "flagsEqual fv a b"
    and ordL: "\<And>m. mset (ordL m) = mset m" and ordR: "\<And>m. mset (ordR m) = mset m"
    and a: "a \<in> set local" "distinct (map Flag.Key local)"
    and b: "b \<in> set remote" "distinct (map Flag.Key remote)"
  shows "a \<in> set (CompareResult.Unchanged
                    (compare_maps fv ordL ordR (flag_map local) (flag_map remote)))
         \<and> Flag.Key a \<notin> set (map FlagDiff.Key
              (Modified (compare_maps fv ordL ordR (flag_map local) (flag_map remote))))
         \<and> Flag.Key a \<notin> set (map Flag.Key
              (Added (compare_maps fv ordL ordR (flag_map local) (flag_map remote))))"
proof -
  let ?res = "compare_maps fv ordL ordR (flag_map local) (flag_map remote)"
  from eq have k: "Flag.Key a = Flag.Key b"
    by (simp add: flagsEqual_def split: if_splits)
  have "map_of (flag_map local) (Flag.Key a) = Some a"
    using a by (simp add: map_of_flag_map)
  then have "(Flag.Key a, a) \<in> set (flag_map local)" by (rule map_of_SomeD)
  then have m: "(Flag.Key a, a) \<in> set (ordL (flag_map local))"
    using mset_eq_setD [OF ordL [of "flag_map local"]] by simp
  have r: "map_of (flag_map remote) (Flag.Key a) = Some b"
    using b k by (simp add: map_of_flag_map)
  have "a \<in> set (CompareResult.Unchanged
                   (fold (compare_local fv (flag_map remote)) (ordL (flag_map local))
                      CompareResult_zero))"
    using m r eq by (rule fold_compare_local_unchanged)
  moreover have "CompareResult.Unchanged ?res
      = CompareResult.Unchanged (fold (compare_local fv (flag_map remote))
          (ordL (flag_map local)) CompareResult_zero)"
    unfolding compare_maps_def
    using fold_compare_remote [of "ordR (flag_map remote)" "flag_map local"]
      keyed_perm [OF ordR [of "flag_map remote"] keyed_flag_map]
    by (simp add: keyed_def)
  ultimately have u: "a \<in> set (CompareResult.Unchanged ?res)" by simp
  have "diff_complete local remote ?res"
    using ordL ordR by (rule compare_flag_maps_complete)
  then have "distinct (map Flag.Key (Added ?res) @ map FlagDiff.Key (Modified ?res)
                         @ map Flag.Key (CompareResult.Unchanged ?res))"
    by (simp add: diff_complete_def)
  with u show ?thesis by auto
qed

section \<open>The loop of \<open>Push\<close>\<close>

lemma push_flag_cases:
  assumes "push_flag h fv cx proj dry rm flag (res, c, e) = (res', c', e')"
  obtains
    (Created) "rm (Flag.Key flag) = None"
      "res' = res\<lparr>PushResult.Created := PushResult.Created res @ [flag]\<rparr>"
  | (CreateFailed) err where "rm (Flag.Key flag) = None" "\<not> dry"
      "res' = res\<lparr>Errors := Errors res
                 @ [ErrorfSW ''failed to create %s: %w'' (Flag.Key flag) err]\<rparr>"
  | (Updated) v where "rm (Flag.Key flag) = Some v"
      "variableNeedsUpdate fv v (flagToVariable flag proj)"
      "res' = res\<lparr>PushResult.Updated := PushResult.Updated res @ [flag]\<rparr>"
  | (UpdateFailed) v err where "rm (Flag.Key flag) = Some v"
      "variableNeedsUpdate fv v (flagToVariable flag proj)" "\<not> dry"
      "res' = res\<lparr>Errors := Errors res
                 @ [ErrorfSW ''failed to update %s: %w'' (Flag.Key flag) err]\<rparr>"
  | (Unchanged) v where "rm (Flag.Key flag) = Some v"
      "\<not> variableNeedsUpdate fv v (flagToVariable flag proj)"
      "res' = res\<lparr>PushResult.Unchanged := PushResult.Unchanged res @ [flag]\<rparr>"
      "c' = c" "e' = e"
  using assms
  by (auto simp add: push_flag_def Let_def split: option.splits if_splits prod.splits)

lemma push_flag_dry:
  "push_flag h fv cx proj True rm flag (res, c, e)
     = (fst (push_flag h fv cx proj True rm flag (res, c, e)), c, e)"
  by (simp add: push_flag_def Let_def split: option.splits)

lemma push_flags_dry:
  "push_flags h fv cx proj True rm flags (res, c, e)
     = (fst (push_flags h fv cx proj True rm flags (res, c, e)), c, e)"
proof (induction flags arbitrary: res)
  case Nil
  then show ?case by simp
next
  case (Cons flag flags)
  show ?case
    using Cons.IH [of "fst (push_flag h fv cx proj True rm flag (res, c, e))"]
      push_flag_dry [of h fv cx proj rm flag res c e]
    by simp
qed

lemma push_flag_dry_result:
  "fst (push_flag h fv cx proj True rm flag (res, c, e))
     = (case rm (Flag.Key flag) of
          None \<Rightarrow> res\<lparr>PushResult.Created := PushResult.Created res @ [flag]\<rparr>
        | Some v \<Rightarrow>
            if variableNeedsUpdate fv v (flagToVariable flag proj)
            then res\<lparr>PushResult.Updated := PushResult.Updated res @ [flag]\<rparr>
            else res\<lparr>PushResult.Unchanged := PushResult.Unchanged res @ [flag]\<rparr>)"
  by (simp add: push_flag_def Let_def split: option.splits)

lemma subseq_snoc_both: "subseq xs ys \<Longrightarrow> subseq (xs @ [x]) (ys @ [x])"
  by (rule list_emb_append_mono) simp_all

lemma subseq_snoc_right: "subseq xs ys \<Longrightarrow> subseq xs (ys @ [x])"
  using list_emb_append_mono [of "(=)" xs ys "[]" "[x]"] by simp

lemma push_flag_dry_covers:
  assumes "dry_covers rd rr"
  shows "dry_covers (fst (push_flag h fv cx proj True rm flag (rd, c, e)))
                    (fst (push_flag h fv cx proj False rm flag (rr, c', e')))"
proof -
  obtain rr' c2 e2 where run: "push_flag h fv cx proj False rm flag (rr, c', e') = (rr', c2, e2)"
    by (cases "push_flag h fv cx proj False rm flag (rr, c', e')") auto
  from run show ?thesis
  proof (cases rule: push_flag_cases)
    case Created
    then show ?thesis using assms run
      by (simp add: push_flag_dry_result dry_covers_def subseq_snoc_both)
  next
    case (CreateFailed err)
    then show ?thesis using assms run
      by (simp add: push_flag_dry_result dry_covers_def subseq_snoc_right)
  next
    case (Updated v)
    then show ?thesis using assms run
      by (simp add: push_flag_dry_result dry_covers_def subseq_snoc_both)
  next
    case (UpdateFailed v err)
    then show ?thesis using assms run
      by (simp add: push_flag_dry_result dry_covers_def subseq_snoc_right)
  next
    case (Unchanged v)
    then show ?thesis using assms run
      by (simp add: push_flag_dry_result dry_covers_def)
  qed
qed

lemma push_flags_dry_covers:
  assumes "dry_covers rd rr"
  shows "dry_covers (fst (push_flags h fv cx proj True rm flags (rd, c, e)))
                    (fst (push_flags h fv cx proj False rm flags (rr, c', e')))"
  using assms
proof (induction flags arbitrary: rd rr c' e')
  case Nil
  then show ?case by simp
next
  case (Cons flag flags)
  obtain rr' c2 e2 where run: "push_flag h fv cx proj False rm flag (rr, c', e') = (rr', c2, e2)"
    by (cases "push_flag h fv cx proj False rm flag (rr, c', e')") auto
  have dry: "push_flag h fv cx proj True rm flag (rd, c, e)
               = (fst (push_flag h fv cx proj True rm flag (rd, c, e)), c, e)"
    by (rule push_flag_dry)
  have "dry_covers (fst (push_flag h fv cx proj True rm flag (rd, c, e))) rr'"
    using push_flag_dry_covers [OF Cons.prems, of h fv cx proj rm flag c e c' e'] run by simp
  from Cons.IH [OF this, of c2 e2] show ?case
    using run dry by simp
qed

lemma dry_covers_no_errors:
  assumes "dry_covers plan run" and "Errors run = []"
  shows "PushResult.Created run = PushResult.Created plan
         \<and> PushResult.Updated run = PushResult.Updated plan"
proof -
  from assms have s1: "subseq (PushResult.Created run) (PushResult.Created plan)"
    and s2: "subseq (PushResult.Updated run) (PushResult.Updated plan)"
    and n: "length (PushResult.Created plan) + length (PushResult.Updated plan)
              = length (PushResult.Created run) + length (PushResult.Updated run)"
    by (simp_all add: dry_covers_def)
  from s1 have l1: "length (PushResult.Created run) \<le> length (PushResult.Created plan)"
    by (rule list_emb_length)
  from s2 have l2: "length (PushResult.Updated run) \<le> length (PushResult.Updated plan)"
    by (rule list_emb_length)
  from l1 l2 n have "length (PushResult.Created run) = length (PushResult.Created plan)"
    and "length (PushResult.Updated run) = length (PushResult.Updated plan)"
    by linarith+
  with s1 s2 show ?thesis
    by (simp add: subseq_same_length)
qed

lemma push_flag_accounted:
  "accounted_keys (fst (push_flag h fv cx proj dry rm flag (res, c, e)))
     = accounted_keys res + {#Some (Flag.Key flag)#}"
proof -
  obtain res' c2 e2 where st: "push_flag h fv cx proj dry rm flag (res, c, e) = (res', c2, e2)"
    by (cases "push_flag h fv cx proj dry rm flag (res, c, e)") auto
  from st have "accounted_keys res' = accounted_keys res + {#Some (Flag.Key flag)#}"
    by (cases rule: push_flag_cases) (simp_all add: accounted_keys_def)
  with st show ?thesis by simp
qed

lemma push_flags_accounted:
  "accounted_keys (fst (push_flags h fv cx proj dry rm flags (res, c, e)))
     = accounted_keys res + mset (map (\<lambda>f. Some (Flag.Key f)) flags)"
proof (induction flags arbitrary: res c e)
  case Nil
  then show ?case by simp
next
  case (Cons flag flags)
  obtain res' c2 e2 where st: "push_flag h fv cx proj dry rm flag (res, c, e) = (res', c2, e2)"
    by (cases "push_flag h fv cx proj dry rm flag (res, c, e)") auto
  from push_flag_accounted [of h fv cx proj dry rm flag res c e] st
  have "accounted_keys res' = accounted_keys res + {#Some (Flag.Key flag)#}" by simp
  with Cons.IH [of res' c2 e2] st show ?case by simp
qed

lemma variable_map_fold_other:
  "k \<notin> Variable.Key ` set vars \<Longrightarrow>
     fold (\<lambda>v m. m(Variable.Key v \<mapsto> v)) vars m k = m k"
  by (induction vars arbitrary: m) (simp_all del: fun_upd_apply, simp)

lemma variable_map_fold_member:
  "distinct (map Variable.Key vars) \<Longrightarrow> v \<in> set vars \<Longrightarrow>
     fold (\<lambda>v m. m(Variable.Key v \<mapsto> v)) vars m (Variable.Key v) = Some v"
proof (induction vars arbitrary: m)
  case Nil
  then show ?case by simp
next
  case (Cons x vars)
  show ?case
  proof (cases "v = x")
    case True
    with Cons.prems have "Variable.Key v \<notin> Variable.Key ` set vars" by auto
    then have "fold (\<lambda>v m. m(Variable.Key v \<mapsto> v)) vars (m(Variable.Key x \<mapsto> x))
                 (Variable.Key v) = (m(Variable.Key x \<mapsto> x)) (Variable.Key v)"
      by (rule variable_map_fold_other)
    then show ?thesis using True by (simp del: fun_upd_apply, simp)
  next
    case False
    with Cons show ?thesis by (simp del: fun_upd_apply)
  qed
qed

lemma variable_map_member:
  "distinct (map Variable.Key vars) \<Longrightarrow> v \<in> set vars \<Longrightarrow>
     variable_map vars (Variable.Key v) = Some v"
  by (simp add: variable_map_def variable_map_fold_member)

lemma variableToFlag_fields:
  assumes "variableToFlag v = Inr b"
  shows "Flag.Key b = Variable.Key v" and "Flag.Description b = Variable.Description v"
    and "Flag.DefaultValue b = Variable.DefaultValue v"
    and "flagTypeToDevCycleType (Flag.Type b) = Variable.Type v"
  using assms
  by (auto simp add: variableToFlag_def devCycleTypeToFlagType_def split: if_splits)

lemma push_flag_unchanged_mono:
  "set (PushResult.Unchanged res)
     \<subseteq> set (PushResult.Unchanged (fst (push_flag h fv cx proj dry rm flag (res, c, e))))"
proof -
  obtain res' c2 e2 where st: "push_flag h fv cx proj dry rm flag (res, c, e) = (res', c2, e2)"
    by (cases "push_flag h fv cx proj dry rm flag (res, c, e)") auto
  from st have "set (PushResult.Unchanged res) \<subseteq> set (PushResult.Unchanged res')"
    by (cases rule: push_flag_cases) auto
  with st show ?thesis by simp
qed

lemma push_flags_unchanged_mono:
  "set (PushResult.Unchanged res)
     \<subseteq> set (PushResult.Unchanged (fst (push_flags h fv cx proj dry rm flags (res, c, e))))"
proof (induction flags arbitrary: res c e)
  case Nil
  then show ?case by simp
next
  case (Cons flag flags)
  obtain res' c2 e2 where st: "push_flag h fv cx proj dry rm flag (res, c, e) = (res', c2, e2)"
    by (cases "push_flag h fv cx proj dry rm flag (res, c, e)") auto
  from push_flag_unchanged_mono [of res h fv cx proj dry rm flag c e] st
  have "set (PushResult.Unchanged res) \<subseteq> set (PushResult.Unchanged res')" by simp
  with Cons.IH [of res' c2 e2] st show ?case by auto
qed

lemma push_flags_unchanged_member:
  assumes "a \<in> set flags" and "rm (Flag.Key a) = Some v"
    and "\<not> variableNeedsUpdate fv v (flagToVariable a proj)"
  shows "a \<in> set (PushResult.Unchanged (fst (push_flags h fv cx proj dry rm flags (res, c, e))))"
  using assms(1)
proof (induction flags arbitrary: res c e)
  case Nil
  then show ?case by simp
next
  case (Cons flag flags)
  obtain res' c2 e2 where st: "push_flag h fv cx proj dry rm flag (res, c, e) = (res', c2, e2)"
    by (cases "push_flag h fv cx proj dry rm flag (res, c, e)") auto
  show ?case
  proof (cases "a = flag")
    case True
    have "push_flag h fv cx proj dry rm flag (res, c, e)
            = (res\<lparr>PushResult.Unchanged := PushResult.Unchanged res @ [flag]\<rparr>, c, e)"
      using True assms(2,3) by (simp add: push_flag_def Let_def)
    then have "a \<in> set (PushResult.Unchanged res')" using st True by auto
    then show ?thesis
      using push_flags_unchanged_mono [of res' h fv cx proj dry rm flags c2 e2] st by auto
  next
    case False
    with Cons.prems have "a \<in> set flags" by simp
    from Cons.IH [OF this, of res' c2 e2] st show ?thesis by simp
  qed
qed

lemma push_flags_changed_origin:
  assumes "rm (Flag.Key a) = Some v"
    and "\<not> variableNeedsUpdate fv v (flagToVariable a proj)"
    and "a \<notin> set (PushResult.Updated res)" and "a \<notin> set (PushResult.Created res)"
  shows "a \<notin> set (PushResult.Updated (fst (push_flags h fv cx proj dry rm flags (res, c, e))))
         \<and> a \<notin> set (PushResult.Created (fst (push_flags h fv cx proj dry rm flags (res, c, e))))"
  using assms(3,4)
proof (induction flags arbitrary: res c e)
  case Nil
  then show ?case by simp
next
  case (Cons flag flags)
  obtain res' c2 e2 where st: "push_flag h fv cx proj dry rm flag (res, c, e) = (res', c2, e2)"
    by (cases "push_flag h fv cx proj dry rm flag (res, c, e)") auto
  from st have "a \<notin> set (PushResult.Updated res') \<and> a \<notin> set (PushResult.Created res')"
    using Cons.prems assms(1,2)
    by (cases rule: push_flag_cases) auto
  then show ?case
    using Cons.IH [of res' c2 e2] st by simp
qed

lemma Push_fetched:
  assumes "ValidateConfig p = None" and "Plugin.client p = Some c0"
    and "GetVariables h (ctx_or_background (PushOptions.Context opts)) (project p) c0 e
           = (Inr vars, c1, e1)"
  shows "Push h fv p local opts e
           = (case push_flags h fv (ctx_or_background (PushOptions.Context opts)) (project p)
                     (DryRun opts) (variable_map vars) (Flags local) (PushResult_zero, c1, e1) of
                (result, c2, e2) \<Rightarrow> (Inr result, p\<lparr>Plugin.client := Some c2\<rparr>, e2))"
  using assms by (simp add: Push_def Let_def)

lemma push_flags_dry_errors:
  "Errors (fst (push_flags h fv cx proj True rm flags (res, c, e))) = Errors res"
proof (induction flags arbitrary: res)
  case Nil
  then show ?case by simp
next
  case (Cons flag flags)
  have s: "push_flag h fv cx proj True rm flag (res, c, e)
             = (fst (push_flag h fv cx proj True rm flag (res, c, e)), c, e)"
    by (rule push_flag_dry)
  have "Errors (fst (push_flag h fv cx proj True rm flag (res, c, e))) = Errors res"
    by (simp add: push_flag_dry_result split: option.splits)
  with Cons.IH [of "fst (push_flag h fv cx proj True rm flag (res, c, e))"] s
  show ?case by simp
qed

lemma variables_to_flags_acc:
  "variables_to_flags vars acc = acc @ variables_to_flags vars []"
proof (induction vars arbitrary: acc)
  case Nil
  then show ?case by simp
next
  case (Cons v vars)
  show ?case
  proof (cases "variableToFlag v")
    case (Inl err)
    then show ?thesis using Cons.IH [of acc] by simp
  next
    case (Inr flag)
    then show ?thesis using Cons.IH [of "acc @ [flag]"] Cons.IH [of "[flag]"] by simp
  qed
qed

lemma variables_to_flags_member:
  "v \<in> set vars \<Longrightarrow> variableToFlag v = Inr b \<Longrightarrow> b \<in> set (variables_to_flags vars [])"
proof (induction vars)
  case Nil
  then show ?case by simp
next
  case (Cons x vars)
  show ?case
  proof (cases "v = x")
    case True
    with Cons.prems show ?thesis
      using variables_to_flags_acc [of vars "[b]"] by simp
  next
    case False
    with Cons have m: "b \<in> set (variables_to_flags vars [])" by simp
    show ?thesis
    proof (cases "variableToFlag x")
      case (Inl err)
      with m show ?thesis by simp
    next
      case (Inr flag)
      with m show ?thesis using variables_to_flags_acc [of vars "[flag]"] by simp
    qed
  qed
qed

lemma variables_to_flags_keys:
  "set (map Flag.Key (variables_to_flags vars [])) \<subseteq> set (map Variable.Key vars)"
proof (induction vars)
  case Nil
  then show ?case by simp
next
  case (Cons x vars)
  show ?case
  proof (cases "variableToFlag x")
    case (Inl err)
    with Cons show ?thesis by auto
  next
    case (Inr flag)
    then have "Flag.Key flag = Variable.Key x" by (rule variableToFlag_fields(1))
    with Inr Cons show ?thesis using variables_to_flags_acc [of vars "[flag]"] by auto
  qed
qed

lemma variables_to_flags_distinct:
  "distinct (map Variable.Key vars) \<Longrightarrow> distinct (map Flag.Key (variables_to_flags vars []))"
proof (induction vars)
  case Nil
  then show ?case by simp
next
  case (Cons x vars)
  show ?case
  proof (cases "variableToFlag x")
    case (Inl err)
    with Cons show ?thesis by simp
  next
    case (Inr flag)
    then have k: "Flag.Key flag = Variable.Key x" by (rule variableToFlag_fields(1))
    from Cons.prems have "Variable.Key x \<notin> set (map Variable.Key vars)" by simp
    with variables_to_flags_keys [of vars] k
    have "Flag.Key flag \<notin> set (map Flag.Key (variables_to_flags vars []))" by auto
    with Inr Cons show ?thesis using variables_to_flags_acc [of vars "[flag]"] by simp
  qed
qed

section \<open>Authentication of the client\<close>

lemma api_url_not_auth: "apiURL @ path \<noteq> authURL"
  by (simp add: apiURL_def authURL_def)










lemma doRequest_after_authenticate:
  assumes "authenticate h cx c e = (None, c1, e1)"
    and "doRequest h cx m path b c e = (r, c', e')"
  shows "c' = c1 \<and> ((sent e' = sent e1 \<and> (\<exists>err. r = Inl err))
                   \<or> sent e' = sent e1 @ [api_request cx m path b c1])"
  using assms
  by (auto simp add: doRequest_def httpClient_Do_def split: option.splits prod.splits)

lemma doRequest_authenticate_failed:
  assumes "authenticate h cx c e = (Some err, c1, e1)"
  shows "doRequest h cx m path b c e = (Inl err, c1, e1)"
  using assms by (simp add: doRequest_def)

section \<open>The manifest\<close>

lemma ParseFlagType_known: "ParseFlagType s = Inr t \<Longrightarrow> t \<noteq> UnknownFlagType"
  by (auto simp add: ParseFlagType_def split: if_splits)

lemma ParseFlagType_String: "t \<noteq> UnknownFlagType \<Longrightarrow> ParseFlagType (FlagType_String t) = Inr t"
  by (cases t) (simp_all add: ParseFlagType_def)

lemma unmarshal_flags_None:
  assumes "unmarshal_flags es acc = (None, flags)"
  shows "flags = acc @ map flag_of_entry es
         \<and> list_all (\<lambda>f. Flag.Type f \<noteq> UnknownFlagType) (map flag_of_entry es)"
  using assms
proof (induction es arbitrary: acc)
  case Nil
  then show ?case by simp
next
  case (Cons e es)
  obtain k en where e: "e = (k, en)" by (cases e)
  from Cons.prems e obtain t where t: "ParseFlagType (FlagType en) = Inr t"
    by (cases "ParseFlagType (FlagType en)") auto
  have f: "flag_of_entry e = \<lparr>Flag.Key = k, Flag.Type = t,
             Flag.Description = manifest_flag.Description en,
             Flag.DefaultValue = manifest_flag.DefaultValue en,
             Flag.Expiry = manifest_flag.Expiry en\<rparr>"
    by (simp add: flag_of_entry_def e t)
  from Cons.prems e t f have "unmarshal_flags es (acc @ [flag_of_entry e]) = (None, flags)"
    by simp
  from Cons.IH [OF this] show ?case
    using f ParseFlagType_known [OF t] by simp
qed

lemma unmarshal_flags_ok:
  assumes "list_all (\<lambda>e. \<exists>t. ParseFlagType (FlagType (snd e)) = Inr t) es"
  shows "unmarshal_flags es acc = (None, acc @ map flag_of_entry es)"
  using assms
proof (induction es arbitrary: acc)
  case Nil
  then show ?case by simp
next
  case (Cons e es)
  obtain k en where e: "e = (k, en)" by (cases e)
  from Cons.prems e obtain t where t: "ParseFlagType (FlagType en) = Inr t" by auto
  have f: "flag_of_entry e = \<lparr>Flag.Key = k, Flag.Type = t,
             Flag.Description = manifest_flag.Description en,
             Flag.DefaultValue = manifest_flag.DefaultValue en,
             Flag.Expiry = manifest_flag.Expiry en\<rparr>"
    by (simp add: flag_of_entry_def e t)
  from Cons.prems have "list_all (\<lambda>e. \<exists>t. ParseFlagType (FlagType (snd e)) = Inr t) es"
    by simp
  from Cons.IH [OF this, of "acc @ [flag_of_entry e]"] show ?case
    using e t f by simp
qed

lemma flag_of_manifest_entry:
  "Flag.Type f \<noteq> UnknownFlagType \<Longrightarrow> flag_of_entry (Flag.Key f, manifest_entry f) = f"
  by (simp add: flag_of_entry_def manifest_entry_def ParseFlagType_String)

lemma update_fresh: "k \<notin> fst ` set m \<Longrightarrow> AList.update k v m = m @ [(k, v)]"
  by (induction m) auto

lemma manifest_fold_distinct:
  assumes "distinct (map Flag.Key fl)" and "Flag.Key ` set fl \<inter> fst ` set m = {}"
  shows "fold (\<lambda>flag m. AList.update (Flag.Key flag) (manifest_entry flag) m) fl m
           = m @ map (\<lambda>f. (Flag.Key f, manifest_entry f)) fl"
  using assms
proof (induction fl arbitrary: m)
  case Nil
  then show ?case by simp
next
  case (Cons f fl)
  from Cons.prems have fresh: "Flag.Key f \<notin> fst ` set m" by auto
  then have u: "AList.update (Flag.Key f) (manifest_entry f) m = m @ [(Flag.Key f, manifest_entry f)]"
    by (rule update_fresh)
  from Cons.prems have d: "distinct (map Flag.Key fl)"
    and i: "Flag.Key ` set fl \<inter> fst ` set (m @ [(Flag.Key f, manifest_entry f)]) = {}"
    by auto
  from Cons.IH [OF d i] u show ?case by simp
qed

lemma manifest_of_distinct:
  "distinct (map Flag.Key (Flags fs)) \<Longrightarrow>
     manifest_of fs = map (\<lambda>f. (Flag.Key f, manifest_entry f)) (Flags fs)"
  using manifest_fold_distinct [of "Flags fs" "[]"] by (simp add: manifest_of_def)

lemma filter_key_unique:
  "distinct (map f xs) \<Longrightarrow> k \<in> set xs \<Longrightarrow> filter (\<lambda>x. f k = f x) xs = [k]"
proof (induction xs)
  case Nil
  then show ?case by simp
next
  case (Cons x xs)
  show ?case
  proof (cases "k = x")
    case True
    with Cons.prems have "\<forall>y \<in> set xs. f k \<noteq> f y" by auto
    then have "filter (\<lambda>x. f k = f x) xs = []" by (simp add: filter_empty_conv)
    with True show ?thesis by simp
  next
    case False
    with Cons.prems have kx: "k \<in> set xs" by simp
    from Cons.prems have "f x \<notin> f ` set xs" by simp
    with kx have "f k \<noteq> f x" by (metis imageI)
    note kx this
    with Cons show ?thesis by simp
  qed
qed

lemma sort_key_permutation:
  assumes "mset xs = mset ys" and "sorted (map f ys)" and "distinct (map f ys)"
  shows "sort_key f xs = ys"
proof (rule properties_for_sort_key)
  show "mset ys = mset xs" using assms(1) by simp
  show "sorted (map f ys)" by fact
  fix k assume k: "k \<in> set ys"
  from assms(1) have "mset (map f xs) = mset (map f ys)" by simp
  then have dx: "distinct (map f xs)"
    using assms(3) mset_eq_imp_distinct_iff by blast
  from k assms(1) have kx: "k \<in> set xs" using mset_eq_setD by blast
  show "filter (\<lambda>x. f k = f x) ys = filter (\<lambda>x. f k = f x) xs"
    using filter_key_unique [OF assms(3) k] filter_key_unique [OF dx kx] by simp
qed

lemma UnmarshalJSON_loaded:
  assumes "UnmarshalJSON js ord d (fs0\<lparr>Flags := []\<rparr>) = (None, fs)"
  obtains m where "json_Unmarshal js d = Inr m"
    and "Flags fs = sort_key Flag.Key (map flag_of_entry (ord m))"
    and "list_all (\<lambda>f. Flag.Type f \<noteq> UnknownFlagType) (map flag_of_entry (ord m))"
proof -
  from assms obtain m where m: "json_Unmarshal js d = Inr m"
    by (cases "json_Unmarshal js d") (auto simp add: UnmarshalJSON_def)
  from assms m obtain flags where u: "unmarshal_flags (ord m) [] = (None, flags)"
    and f: "Flags fs = sort_key Flag.Key flags"
    by (cases "unmarshal_flags (ord m) []")
       (auto simp add: UnmarshalJSON_def split: option.splits)
  from unmarshal_flags_None [OF u] f m that show ?thesis by simp
qed

lemma list_codec_round_trip:
  assumes "distinct (map fst m)"
    and "list_all (\<lambda>kv. json_value (manifest_flag.DefaultValue (snd kv))) m"
  shows "\<exists>d m'. json_Marshal list_codec m = Inr d \<and> json_Unmarshal list_codec d = Inr m'
           \<and> mset m' = mset m"
proof -
  have "mset (map fst (sort_key fst m)) = mset (map fst m)" by simp
  then have "distinct (map fst (sort_key fst m))"
    using assms(1) mset_eq_imp_distinct_iff by blast
  moreover have "list_all (\<lambda>kv. json_value (manifest_flag.DefaultValue (snd kv))) (sort_key fst m)"
    using assms(2) by (simp add: list_all_iff)
  ultimately show ?thesis by (simp add: list_codec_def)
qed

lemma list_codec_decoded:
  "json_Unmarshal list_codec d = Inr m \<Longrightarrow>
     distinct (map fst m) \<and> list_all (\<lambda>kv. json_value (manifest_flag.DefaultValue (snd kv))) m"
  by (simp add: list_codec_def split: if_splits)

lemma load_manifest_ba:
  "UnmarshalJSON list_codec rev manifest_ba \<lparr>Flags = []\<rparr> = (None, flagset_ab)"
  by (simp add: UnmarshalJSON_def list_codec_def manifest_ba_def flagset_ab_def ParseFlagType_def)

section \<open>Pushes on the backend in memory\<close>

lemmas run_defs =
  Push_def Compare_def Pull_def ValidateConfig_def GetVariables_def doRequest_def
  authenticate_def refresh_token_def httpClient_Do_def time_Now_def
  CreateFeatureWithVariable_def UpdateVariable_def updateBody_def feature_of_variable_def
  api_request_def auth_request_def authURL_def apiURL_def
  backend_host_def backend_Do_def patch_variable_def start_def
  proj_plugin_eq proj_client_def ctx_or_background_def
  push_flag_def variable_map_def flagToVariable_def variableNeedsUpdate_def
  PushResult_zero_def bool_flag_def remote_variable_def Let_def

lemma push_refused_run:
  "fst (Push backend_host (sprint_v g_whole) proj_plugin local_ab
          \<lparr>PushOptions.Context = None, DryRun = False\<rparr> (start [] [''a'']))
     = Inr \<lparr>PushResult.Created = [bool_flag ''b'' False], PushResult.Updated = [],
            Deleted = [], PushResult.Unchanged = [],
            Errors = [ErrorfSW ''failed to create %s: %w'' ''a''
                        (ErrorfDS ''failed to create feature (status %d): %s'' 400 ''refused'')]\<rparr>"
  by (simp add: run_defs local_ab_def)

lemma push_refused_plan:
  "fst (Push backend_host (sprint_v g_whole) proj_plugin local_ab
          \<lparr>PushOptions.Context = None, DryRun = True\<rparr> (start [] [''a'']))
     = Inr \<lparr>PushResult.Created = [bool_flag ''a'' True, bool_flag ''b'' False],
            PushResult.Updated = [],
            Deleted = [], PushResult.Unchanged = [], Errors = []\<rparr>"
  by (simp add: run_defs local_ab_def)

lemma push_plain_run:
  "fst (Push backend_host (sprint_v g_whole) proj_plugin local_ab
          \<lparr>PushOptions.Context = None, DryRun = False\<rparr> (start [] []))
     = Inr \<lparr>PushResult.Created = [bool_flag ''a'' True, bool_flag ''b'' False],
            PushResult.Updated = [], Deleted = [], PushResult.Unchanged = [], Errors = []\<rparr>"
  by (simp add: run_defs local_ab_def)

lemma push_plain_plan:
  "fst (Push backend_host (sprint_v g_whole) proj_plugin local_ab
          \<lparr>PushOptions.Context = None, DryRun = True\<rparr> (start [] []))
     = Inr \<lparr>PushResult.Created = [bool_flag ''a'' True, bool_flag ''b'' False],
            PushResult.Updated = [], Deleted = [], PushResult.Unchanged = [], Errors = []\<rparr>"
  by (simp add: run_defs local_ab_def)

lemma proj_plugin_valid: "ValidateConfig proj_plugin = None \<and> Plugin.client proj_plugin = Some proj_client
   \<and> project proj_plugin = ''proj''"
  by (simp add: proj_plugin_eq ValidateConfig_def)

lemma create_refused:
  "CreateFeatureWithVariable backend_host Background ''proj''
       (flagToVariable (bool_flag ''a'' True) ''proj'') token_client (fetched vars [''a''])
     = (Some (ErrorfDS ''failed to create feature (status %d): %s'' 400 ''refused''),
        token_client,
        \<lparr>world = \<lparr>store = vars, clock = 1002, refused = [''a'']\<rparr>,
         sent = sent (fetched vars [''a''])
           @ [api_request Background ''POST'' ''/v2/projects/proj/features''
                (Some (PFeature (feature_of_variable (flagToVariable (bool_flag ''a'' True) ''proj''))))
                token_client]\<rparr>)"
  by (simp add: CreateFeatureWithVariable_def doRequest_def authenticate_def time_Now_def
      httpClient_Do_def backend_host_def backend_Do_def fetched_def token_client_def
      token_lifetime_hour api_request_def apiURL_def authURL_def feature_of_variable_def
      flagToVariable_def bool_flag_def)

lemma update_refused:
  "UpdateVariable backend_host Background ''proj'' ''a''
       (flagToVariable (bool_flag ''a'' True) ''proj'') token_client (fetched vars [''a''])
     = (Some (ErrorfDS ''failed to update variable (status %d): %s'' 400 ''refused''),
        token_client,
        \<lparr>world = \<lparr>store = vars, clock = 1002, refused = [''a'']\<rparr>,
         sent = sent (fetched vars [''a''])
           @ [api_request Background ''PATCH'' ''/v1/projects/proj/variables/a''
                (Some (PMap [(''description'', AString [])])) token_client]\<rparr>)"
  by (simp add: UpdateVariable_def updateBody_def doRequest_def authenticate_def time_Now_def
      httpClient_Do_def backend_host_def backend_Do_def fetched_def token_client_def
      token_lifetime_hour api_request_def apiURL_def authURL_def
      flagToVariable_def bool_flag_def)

lemma push_create_refused:
  "fst (Push backend_host (sprint_v g_whole) proj_plugin local_ab
          \<lparr>PushOptions.Context = None, DryRun = False\<rparr>
          (start [remote_variable ''b'' ''Boolean'' (ABool True)] [''a'']))
     = Inr \<lparr>PushResult.Created = [], PushResult.Updated = [bool_flag ''b'' False],
            Deleted = [], PushResult.Unchanged = [],
            Errors = [ErrorfSW ''failed to create %s: %w'' ''a''
                        (ErrorfDS ''failed to create feature (status %d): %s'' 400 ''refused'')]\<rparr>"
  by (simp add: run_defs local_ab_def token_lifetime_hour)

lemma push_update_refused:
  "fst (Push backend_host (sprint_v g_whole) proj_plugin local_ab
          \<lparr>PushOptions.Context = None, DryRun = False\<rparr>
          (start [remote_variable ''a'' ''Boolean'' (ABool False)] [''a'']))
     = Inr \<lparr>PushResult.Created = [bool_flag ''b'' False], PushResult.Updated = [],
            Deleted = [], PushResult.Unchanged = [],
            Errors = [ErrorfSW ''failed to update %s: %w'' ''a''
                        (ErrorfDS ''failed to update variable (status %d): %s'' 400 ''refused'')]\<rparr>"
  by (simp add: run_defs local_ab_def token_lifetime_hour)




lemma update_described:
  "UpdateVariable backend_host Background ''proj'' ''a''
       (flagToVariable ((bool_flag ''a'' True)\<lparr>Flag.Description := ''on''\<rparr>) ''proj'')
       token_client (fetched [remote_variable ''a'' ''Boolean'' (ABool False)] [])
     = (None, token_client,
        \<lparr>world = \<lparr>store = [(remote_variable ''a'' ''Boolean'' (ABool False))
                               \<lparr>Variable.Description := ''on''\<rparr>],
                   clock = 1002, refused = []\<rparr>,
         sent = sent (fetched [remote_variable ''a'' ''Boolean'' (ABool False)] [])
           @ [api_request Background ''PATCH'' ''/v1/projects/proj/variables/a''
                (Some (PMap [(''description'', AString ''on'')])) token_client]\<rparr>)"
  by (simp add: UpdateVariable_def updateBody_def doRequest_def authenticate_def time_Now_def
      httpClient_Do_def backend_host_def backend_Do_def patch_variable_def fetched_def
      token_client_def token_lifetime_hour api_request_def apiURL_def authURL_def
      flagToVariable_def bool_flag_def remote_variable_def)

section \<open>The registry rejects empty and duplicate names\<close>

lemma Register_empty_name:
  assumes "Metadata.Name (md (factory ())) = []"
  shows "Register md factory m = (Some (Errorf ''plugin name cannot be empty''), m)"
  using assms by (simp add: Register_def Let_def)

lemma Register_duplicate_name:
  assumes "Metadata.Name (md (factory ())) \<noteq> []"
    and "map_of (plugins m) (Metadata.Name (md (factory ()))) \<noteq> None"
  shows "Register md factory m =
           (Some (ErrorfS ''plugin %q is already registered''
                    (Metadata.Name (md (factory ())))), m)"
  using assms by (simp add: Register_def Let_def)

lemma Register_success_stores_factory:
  assumes "Register md first m0 = (None, m)"
  shows "Metadata.Name (md (first ())) \<noteq> []"
    and "\<exists>info. map_of (plugins m) (Metadata.Name (md (first ()))) = Some info
                \<and> Factory info = first"
  using assms by (auto simp add: Register_def Let_def update_conv' split: if_splits)

text \<open>
  C6.  \<open>Register\<close> returns an error and the registry as it was when the factory's
  metadata name is empty or a plugin of that name is registered already.  After a
  successful registration of \<open>first\<close>, registering a factory of the same name fails, and
  \<open>Get\<close> on that name still builds the instance of \<open>first\<close>, before and after the
  rejected call.
\<close>

theorem Register_rejects_empty_and_duplicate:
  "(Metadata.Name (md (factory ())) = []
      \<or> map_of (plugins m) (Metadata.Name (md (factory ()))) \<noteq> None
    \<longrightarrow> (\<exists>err. Register md factory m = (Some err, m)))
   \<and> (Register md first m0 = (None, m)
        \<and> Metadata.Name (md (factory ())) = Metadata.Name (md (first ()))
      \<longrightarrow> Register md factory m =
            (Some (ErrorfS ''plugin %q is already registered''
                     (Metadata.Name (md (first ())))), m)
          \<and> Get m (Metadata.Name (md (first ()))) = Inr (first ())
          \<and> Get (snd (Register md factory m)) (Metadata.Name (md (first ()))) = Inr (first ()))"
proof (intro conjI impI)
  assume "Metadata.Name (md (factory ())) = []
            \<or> map_of (plugins m) (Metadata.Name (md (factory ()))) \<noteq> None"
  then show "\<exists>err. Register md factory m = (Some err, m)"
    by (cases "Metadata.Name (md (factory ())) = []")
       (auto simp add: Register_empty_name Register_duplicate_name)
next
  assume a: "Register md first m0 = (None, m)
               \<and> Metadata.Name (md (factory ())) = Metadata.Name (md (first ()))"
  from a Register_success_stores_factory [of md first m0 m]
  obtain info where ne: "Metadata.Name (md (first ())) \<noteq> []"
    and info: "map_of (plugins m) (Metadata.Name (md (first ()))) = Some info"
              "Factory info = first"
    by blast
  from a ne info show r: "Register md factory m =
      (Some (ErrorfS ''plugin %q is already registered'' (Metadata.Name (md (first ())))), m)"
    using Register_duplicate_name [of md factory m] by simp
  from info show g: "Get m (Metadata.Name (md (first ()))) = Inr (first ())"
    by (simp add: Get_def)
  from r g show "Get (snd (Register md factory m)) (Metadata.Name (md (first ())))
                   = Inr (first ())"
    by simp
qed

theorem Register_rejects_empty_and_duplicate_witness:
  "(\<exists>err. Register (\<lambda>p. p) (\<lambda>u. mock_plugin [] ''1.0.0'') NewManager
             = (Some err, NewManager))
   \<and> Register (\<lambda>p. p) (\<lambda>u. mock_plugin ''mock'' ''1.0.0'') NewManager
       = (None, snd (Register (\<lambda>p. p) (\<lambda>u. mock_plugin ''mock'' ''1.0.0'') NewManager))
   \<and> Register (\<lambda>p. p) (\<lambda>u. mock_plugin ''mock'' ''2.0.0'')
        (snd (Register (\<lambda>p. p) (\<lambda>u. mock_plugin ''mock'' ''1.0.0'') NewManager))
       = (Some (ErrorfS ''plugin %q is already registered'' ''mock''),
          snd (Register (\<lambda>p. p) (\<lambda>u. mock_plugin ''mock'' ''1.0.0'') NewManager))
   \<and> Get (snd (Register (\<lambda>p. p) (\<lambda>u. mock_plugin ''mock'' ''1.0.0'') NewManager)) ''mock''
       = Inr (mock_plugin ''mock'' ''1.0.0'')"
  using Register_rejects_empty_and_duplicate
          [of "\<lambda>p. p" "\<lambda>u. mock_plugin [] ''1.0.0''" NewManager]
        Register_rejects_empty_and_duplicate
          [of "\<lambda>p. p" "\<lambda>u. mock_plugin ''mock'' ''2.0.0''"
              "snd (Register (\<lambda>p. p) (\<lambda>u. mock_plugin ''mock'' ''1.0.0'') NewManager)"
              "\<lambda>u. mock_plugin ''mock'' ''1.0.0''" NewManager]
  by (simp add: mock_plugin_def Register_def NewManager_def)

section \<open>The default plugin before \<open>Configure\<close>\<close>

text \<open>
  C10.  On the plugin \<open>NewDefaultPlugin\<close> returns, \<open>Pull\<close>, \<open>Push\<close> and \<open>Compare\<close>
  return the error ``plugin not configured: call Configure() first'' for every
  options value, whatever the client's methods are, and hand back the state of the
  network as they got it: no method of the client has run.
\<close>

theorem unconfigured_default_plugin:
  "DefaultPlugin_Pull api NewDefaultPlugin pullOpts w
     = (Inl (Errorf ''plugin not configured: call Configure() first''), w)
   \<and> DefaultPlugin_Push api NewDefaultPlugin local pushOpts w
     = (Inl (Errorf ''plugin not configured: call Configure() first''), w)
   \<and> DefaultPlugin_Compare api fv ordL ordR NewDefaultPlugin local compareOpts w
     = (Inl (Errorf ''plugin not configured: call Configure() first''), w)"
  by (simp add: DefaultPlugin_Pull_def DefaultPlugin_Push_def DefaultPlugin_Compare_def
      NewDefaultPlugin_def)

section \<open>Diff completeness\<close>

text \<open>
  C1.  Whatever orders the two \<open>range\<close> loops take, when the remote flags have been
  fetched \<open>Compare\<close> of either plugin returns a result that is complete: the keys of
  \<open>Added\<close>, \<open>Modified\<close> and \<open>Unchanged\<close> are pairwise disjoint (no key occurs twice
  among them) and together are the local keys, and the keys of \<open>Removed\<close> are the remote
  keys that are not local.  For the DevCycle plugin the remote flagset is the one \<open>Pull\<close>
  builds from the fetched variables.  Unique keys are not needed.
\<close>

theorem Compare_diff_complete:
  assumes "\<And>m. mset (ordL m) = mset m" and "\<And>m. mset (ordR m) = mset m"
  shows "(DefaultPlugin.client p = Some c
            \<and> PullFlags api c (ctx_or_background (CompareOptions.Context opts)) w
                = (Inr remote, w')
          \<longrightarrow> (\<exists>res. DefaultPlugin_Compare api fv ordL ordR p local opts w = (Inr res, w')
                   \<and> diff_complete (Flags local) (Flags remote) res))
       \<and> (ValidateConfig q = None \<and> Plugin.client q = Some c0
            \<and> GetVariables h (ctx_or_background (CompareOptions.Context opts)) (project q) c0 e
                = (Inr vars, c1, e1)
          \<longrightarrow> (\<exists>res. Compare h fv ordL ordR q local opts e
                         = (Inr res, q\<lparr>Plugin.client := Some c1\<rparr>, e1)
                   \<and> diff_complete (Flags local) (variables_to_flags vars []) res))"
proof (intro conjI impI)
  assume "DefaultPlugin.client p = Some c
            \<and> PullFlags api c (ctx_or_background (CompareOptions.Context opts)) w
                = (Inr remote, w')"
  then show "\<exists>res. DefaultPlugin_Compare api fv ordL ordR p local opts w = (Inr res, w')
                   \<and> diff_complete (Flags local) (Flags remote) res"
    using compare_flag_maps_complete [OF assms, of "Flags local" "Flags remote" fv]
    by (simp add: DefaultPlugin_Compare_def)
next
  assume "ValidateConfig q = None \<and> Plugin.client q = Some c0
            \<and> GetVariables h (ctx_or_background (CompareOptions.Context opts)) (project q) c0 e
                = (Inr vars, c1, e1)"
  then show "\<exists>res. Compare h fv ordL ordR q local opts e
                         = (Inr res, q\<lparr>Plugin.client := Some c1\<rparr>, e1)
                   \<and> diff_complete (Flags local) (variables_to_flags vars []) res"
    using compare_flag_maps_complete [OF assms, of "Flags local" "variables_to_flags vars []" fv]
    by (simp add: Compare_def remote_flag_map_eq)
qed


theorem Compare_diff_complete_witness:
  "(\<forall>m::(string \<times> Flag) list. mset (rev m) = mset m)
   \<and> DefaultPlugin.client \<lparr>DefaultPlugin.config = proj_config, DefaultPlugin.client = Some ()\<rparr> = Some ()
   \<and> (\<exists>res. DefaultPlugin_Compare (static_sync \<lparr>Flags = [bool_flag ''a'' False, bool_flag ''c'' False]\<rparr>)
               (sprint_v g_whole) rev rev
               \<lparr>DefaultPlugin.config = proj_config, DefaultPlugin.client = Some ()\<rparr>
               local_ab \<lparr>CompareOptions.Context = None\<rparr> () = (Inr res, ())
            \<and> diff_complete (Flags local_ab) [bool_flag ''a'' False, bool_flag ''c'' False] res)
   \<and> ValidateConfig proj_plugin = None
   \<and> (\<exists>res p1 e1. Compare backend_host (sprint_v g_whole) rev rev proj_plugin local_ab
               \<lparr>CompareOptions.Context = None\<rparr> (start remote_acd []) = (Inr res, p1, e1)
            \<and> diff_complete (Flags local_ab) [bool_flag ''a'' False, bool_flag ''c'' False] res
            \<and> Added res = [bool_flag ''b'' False]
            \<and> map FlagDiff.Key (Modified res) = [''a'']
            \<and> Removed res = [bool_flag ''c'' False])"
proof -
  have perm: "\<And>m::(string \<times> Flag) list. mset (rev m) = mset m" by simp
  have v: "ValidateConfig proj_plugin = None"
    by (simp add: proj_plugin_eq ValidateConfig_def)
  note t = Compare_diff_complete [OF perm perm,
      of "\<lparr>DefaultPlugin.config = proj_config, DefaultPlugin.client = Some ()\<rparr>" "()"
         "static_sync \<lparr>Flags = [bool_flag ''a'' False, bool_flag ''c'' False]\<rparr>"
         "\<lparr>CompareOptions.Context = None\<rparr>" "()"
         "\<lparr>Flags = [bool_flag ''a'' False, bool_flag ''c'' False]\<rparr>" "()"
         "sprint_v g_whole" local_ab proj_plugin proj_client backend_host "start remote_acd []"
         remote_acd]
  have g: "GetVariables backend_host (ctx_or_background (CompareOptions.Context \<lparr>CompareOptions.Context = None\<rparr>))
            (project proj_plugin) proj_client (start remote_acd [])
     = (Inr remote_acd, proj_client\<lparr>accessToken := ''t1'', tokenExpiry := 1000 + token_lifetime 3600\<rparr>,
        \<lparr>world = \<lparr>store = remote_acd, clock = 1001, refused = []\<rparr>,
         sent = [auth_request Background proj_client,
                 api_request Background ''GET'' ''/v1/projects/proj/variables'' None 
                   (proj_client\<lparr>accessToken := ''t1'', tokenExpiry := 1000 + token_lifetime 3600\<rparr>)]\<rparr>)"
    by (simp add: Get_ex proj_plugin_eq ctx_or_background_def)
  have d: "\<exists>res. DefaultPlugin_Compare (static_sync \<lparr>Flags = [bool_flag ''a'' False, bool_flag ''c'' False]\<rparr>)
               (sprint_v g_whole) rev rev
               \<lparr>DefaultPlugin.config = proj_config, DefaultPlugin.client = Some ()\<rparr>
               local_ab \<lparr>CompareOptions.Context = None\<rparr> () = (Inr res, ())
            \<and> diff_complete (Flags local_ab) [bool_flag ''a'' False, bool_flag ''c'' False] res"
    using t by (simp add: static_sync_def)
  from t g v obtain res where
    r: "Compare backend_host (sprint_v g_whole) rev rev proj_plugin local_ab
               \<lparr>CompareOptions.Context = None\<rparr> (start remote_acd [])
          = (Inr res, proj_plugin\<lparr>Plugin.client := Some (proj_client\<lparr>accessToken := ''t1'', tokenExpiry := 1000 + token_lifetime 3600\<rparr>)\<rparr>,
             \<lparr>world = \<lparr>store = remote_acd, clock = 1001, refused = []\<rparr>,
         sent = [auth_request Background proj_client,
                 api_request Background ''GET'' ''/v1/projects/proj/variables'' None 
                   (proj_client\<lparr>accessToken := ''t1'', tokenExpiry := 1000 + token_lifetime 3600\<rparr>)]\<rparr>)"
    and dc: "diff_complete (Flags local_ab) (variables_to_flags remote_acd []) res"
    by (auto simp add: proj_plugin_eq)
  have res: "res = compare_maps (sprint_v g_whole) rev rev (flag_map (Flags local_ab)) (remote_flag_map remote_acd)"
    using r g v by (simp add: Compare_def proj_plugin_eq)
  have ev: "Added res = [bool_flag ''b'' False] \<and> map FlagDiff.Key (Modified res) = [''a'']
            \<and> Removed res = [bool_flag ''c'' False]"
    unfolding res
    by (simp add: compare_maps_def remote_flag_map_eq pulled local_ab_def flag_map_def
        bool_flag_def compare_local_def compare_remote_def flagsEqual_def CompareResult_zero_def)
  have "\<exists>res p1 e1. Compare backend_host (sprint_v g_whole) rev rev proj_plugin local_ab
               \<lparr>CompareOptions.Context = None\<rparr> (start remote_acd []) = (Inr res, p1, e1)
            \<and> diff_complete (Flags local_ab) [bool_flag ''a'' False, bool_flag ''c'' False] res
            \<and> Added res = [bool_flag ''b'' False]
            \<and> map FlagDiff.Key (Modified res) = [''a'']
            \<and> Removed res = [bool_flag ''c'' False]"
    using dc [unfolded pulled] ev by (simp add: r)
  with perm d v show ?thesis by simp
qed

section \<open>Equality of flags by rendering\<close>

text \<open>
  C4.  Two flags that agree on key, type and description and whose default values
  render to the same string under \<open>%v\<close> are equal for \<open>flagsEqual\<close>, whatever the values
  themselves are.  When the local flag list has distinct keys and holds the first of them,
  and the remote side holds the second under a key of its own, \<open>Compare\<close> of either plugin
  puts the local flag in \<open>Unchanged\<close> and its key neither in \<open>Modified\<close> nor in \<open>Added\<close>,
  and \<open>Push\<close> of the DevCycle plugin puts it in \<open>Unchanged\<close> and neither in \<open>Updated\<close>
  nor in \<open>Created\<close>.
\<close>

theorem equal_rendering_is_unchanged:
  assumes same: "Flag.Key a = Flag.Key b" "Flag.Type a = Flag.Type b"
      "Flag.Description a = Flag.Description b"
      "fv (Flag.DefaultValue a) = fv (Flag.DefaultValue b)"
    and ordL: "\<And>m. mset (ordL m) = mset m" and ordR: "\<And>m. mset (ordR m) = mset m"
    and a: "a \<in> set (Flags local)" "distinct (map Flag.Key (Flags local))"
  shows "flagsEqual fv a b
       \<and> (DefaultPlugin.client p = Some c
            \<and> PullFlags api c (ctx_or_background (CompareOptions.Context copts)) w
                = (Inr remote, w')
            \<and> b \<in> set (Flags remote) \<and> distinct (map Flag.Key (Flags remote))
          \<longrightarrow> (\<exists>res. DefaultPlugin_Compare api fv ordL ordR p local copts w = (Inr res, w')
                   \<and> a \<in> set (CompareResult.Unchanged res)
                   \<and> Flag.Key a \<notin> set (map FlagDiff.Key (Modified res))
                   \<and> Flag.Key a \<notin> set (map Flag.Key (Added res))))
       \<and> (ValidateConfig q = None \<and> Plugin.client q = Some c0
            \<and> GetVariables h (ctx_or_background (CompareOptions.Context copts)) (project q) c0 e
                = (Inr vars, c1, e1)
            \<and> v \<in> set vars \<and> variableToFlag v = Inr b \<and> distinct (map Variable.Key vars)
          \<longrightarrow> (\<exists>res. Compare h fv ordL ordR q local copts e
                         = (Inr res, q\<lparr>Plugin.client := Some c1\<rparr>, e1)
                   \<and> a \<in> set (CompareResult.Unchanged res)
                   \<and> Flag.Key a \<notin> set (map FlagDiff.Key (Modified res))
                   \<and> Flag.Key a \<notin> set (map Flag.Key (Added res))))
       \<and> (ValidateConfig q = None \<and> Plugin.client q = Some c0
            \<and> GetVariables h (ctx_or_background (PushOptions.Context popts)) (project q) c0 e
                = (Inr vars, c1, e1)
            \<and> v \<in> set vars \<and> variableToFlag v = Inr b \<and> distinct (map Variable.Key vars)
          \<longrightarrow> (\<exists>res q' e'. Push h fv q local popts e = (Inr res, q', e')
                   \<and> a \<in> set (PushResult.Unchanged res)
                   \<and> a \<notin> set (PushResult.Updated res)
                   \<and> a \<notin> set (PushResult.Created res)))"
proof (intro conjI impI)
  show eq: "flagsEqual fv a b" using same by (simp add: flagsEqual_def)
  {
    assume h: "DefaultPlugin.client p = Some c
            \<and> PullFlags api c (ctx_or_background (CompareOptions.Context copts)) w
                = (Inr remote, w')
            \<and> b \<in> set (Flags remote) \<and> distinct (map Flag.Key (Flags remote))"
    then have b: "b \<in> set (Flags remote)" "distinct (map Flag.Key (Flags remote))" by simp_all
    from h equal_flags_unchanged_in_maps [OF eq ordL ordR a b]
    show "\<exists>res. DefaultPlugin_Compare api fv ordL ordR p local copts w = (Inr res, w')
                   \<and> a \<in> set (CompareResult.Unchanged res)
                   \<and> Flag.Key a \<notin> set (map FlagDiff.Key (Modified res))
                   \<and> Flag.Key a \<notin> set (map Flag.Key (Added res))"
      by (simp add: DefaultPlugin_Compare_def)
  }
  {
    assume h: "ValidateConfig q = None \<and> Plugin.client q = Some c0
            \<and> GetVariables h (ctx_or_background (CompareOptions.Context copts)) (project q) c0 e
                = (Inr vars, c1, e1)
            \<and> v \<in> set vars \<and> variableToFlag v = Inr b \<and> distinct (map Variable.Key vars)"
    then have vm: "v \<in> set vars" and vb: "variableToFlag v = Inr b"
      and dv: "distinct (map Variable.Key vars)" by simp_all
    have b: "b \<in> set (variables_to_flags vars [])"
      "distinct (map Flag.Key (variables_to_flags vars []))"
      using variables_to_flags_member [OF vm vb] variables_to_flags_distinct [OF dv]
      by simp_all
    from h equal_flags_unchanged_in_maps [OF eq ordL ordR a b]
    show "\<exists>res. Compare h fv ordL ordR q local copts e
                         = (Inr res, q\<lparr>Plugin.client := Some c1\<rparr>, e1)
                   \<and> a \<in> set (CompareResult.Unchanged res)
                   \<and> Flag.Key a \<notin> set (map FlagDiff.Key (Modified res))
                   \<and> Flag.Key a \<notin> set (map Flag.Key (Added res))"
      by (simp add: Compare_def remote_flag_map_eq)
  }
  {
    assume h: "ValidateConfig q = None \<and> Plugin.client q = Some c0
            \<and> GetVariables h (ctx_or_background (PushOptions.Context popts)) (project q) c0 e
                = (Inr vars, c1, e1)
            \<and> v \<in> set vars \<and> variableToFlag v = Inr b \<and> distinct (map Variable.Key vars)"
    then have vb: "variableToFlag v = Inr b" by simp
    from h have "variable_map vars (Variable.Key v) = Some v"
      by (simp add: variable_map_member)
    then have rm: "variable_map vars (Flag.Key a) = Some v"
      using variableToFlag_fields(1) [OF vb] same(1) by simp
    have nu: "\<not> variableNeedsUpdate fv v (flagToVariable a (project q))"
      using variableToFlag_fields [OF vb] same
      by (simp add: variableNeedsUpdate_def flagToVariable_def)
    let ?st = "push_flags h fv (ctx_or_background (PushOptions.Context popts)) (project q)
                 (DryRun popts) (variable_map vars) (Flags local) (PushResult_zero, c1, e1)"
    obtain res c2 e2 where st: "?st = (res, c2, e2)" by (cases ?st) auto
    have "a \<in> set (PushResult.Unchanged (fst ?st))"
      using a(1) rm nu by (rule push_flags_unchanged_member)
    moreover have "a \<notin> set (PushResult.Updated (fst ?st)) \<and> a \<notin> set (PushResult.Created (fst ?st))"
      using rm nu by (rule push_flags_changed_origin) (simp_all add: PushResult_zero_def)
    moreover have "Push h fv q local popts e = (Inr res, q\<lparr>Plugin.client := Some c2\<rparr>, e2)"
      using h st by (simp add: Push_def Let_def)
    ultimately show "\<exists>res q' e'. Push h fv q local popts e = (Inr res, q', e')
                   \<and> a \<in> set (PushResult.Unchanged res)
                   \<and> a \<notin> set (PushResult.Updated res)
                   \<and> a \<notin> set (PushResult.Created res)"
      using st by simp
  }
qed

theorem equal_rendering_is_unchanged_witness:
  "Flag.DefaultValue (number_flag ''n'' (AInt 1)) \<noteq> Flag.DefaultValue (number_flag ''n'' (AFloat 1))
   \<and> sprint_v g_whole (AInt 1) = sprint_v g_whole (AFloat 1)
   \<and> flagsEqual (sprint_v g_whole) (number_flag ''n'' (AInt 1)) (number_flag ''n'' (AFloat 1))
   \<and> (\<exists>res. DefaultPlugin_Compare (static_sync \<lparr>Flags = [number_flag ''n'' (AFloat 1)]\<rparr>)
               (sprint_v g_whole) rev rev
               \<lparr>DefaultPlugin.config = proj_config, DefaultPlugin.client = Some ()\<rparr>
               \<lparr>Flags = [number_flag ''n'' (AInt 1)]\<rparr> \<lparr>CompareOptions.Context = None\<rparr> ()
             = (Inr res, ())
          \<and> CompareResult.Unchanged res = [number_flag ''n'' (AInt 1)]
          \<and> Modified res = [] \<and> Added res = [])
   \<and> variableToFlag (remote_variable ''n'' ''Number'' (AFloat 1)) = Inr (number_flag ''n'' (AFloat 1))
   \<and> (\<exists>res q' e'. Compare backend_host (sprint_v g_whole) rev rev proj_plugin
               \<lparr>Flags = [number_flag ''n'' (AInt 1)]\<rparr> \<lparr>CompareOptions.Context = None\<rparr>
               (start [remote_variable ''n'' ''Number'' (AFloat 1)] [])
             = (Inr res, q', e')
          \<and> CompareResult.Unchanged res = [number_flag ''n'' (AInt 1)]
          \<and> Modified res = [] \<and> Added res = [])
   \<and> (\<exists>res q' e'. Push backend_host (sprint_v g_whole) proj_plugin
               \<lparr>Flags = [number_flag ''n'' (AInt 1)]\<rparr>
               \<lparr>PushOptions.Context = None, DryRun = False\<rparr>
               (start [remote_variable ''n'' ''Number'' (AFloat 1)] [])
             = (Inr res, q', e')
          \<and> PushResult.Unchanged res = [number_flag ''n'' (AInt 1)]
          \<and> PushResult.Updated res = [] \<and> PushResult.Created res = [])"
proof -
  let ?a = "number_flag ''n'' (AInt 1)" and ?b = "number_flag ''n'' (AFloat 1)"
  let ?v = "remote_variable ''n'' ''Number'' (AFloat 1)"
  have perm: "\<And>m::(string \<times> Flag) list. mset (rev m) = mset m" by simp
  have r: "sprint_v g_whole (AInt 1) = sprint_v g_whole (AFloat 1)"
    by (simp add: g_whole_def)
  have vb: "variableToFlag ?v = Inr ?b"
    by (simp add: variableToFlag_def devCycleTypeToFlagType_def remote_variable_def
        number_flag_def)
  have vc: "ValidateConfig proj_plugin = None"
    by (simp add: proj_plugin_eq ValidateConfig_def)
  note t = equal_rendering_is_unchanged [of ?a ?b "sprint_v g_whole" rev rev
      "\<lparr>Flags = [?a]\<rparr>"
      "\<lparr>DefaultPlugin.config = proj_config, DefaultPlugin.client = Some ()\<rparr>" "()"
      "static_sync \<lparr>Flags = [?b]\<rparr>" "\<lparr>CompareOptions.Context = None\<rparr>" "()"
      "\<lparr>Flags = [?b]\<rparr>" "()" proj_plugin proj_client backend_host "start [?v] []" "[?v]"
      "proj_client\<lparr>accessToken := ''t1'', tokenExpiry := 1000 + token_lifetime 3600\<rparr>"
      "\<lparr>world = \<lparr>store = [?v], clock = 1001, refused = []\<rparr>,
        sent = [auth_request Background proj_client,
                api_request Background ''GET'' ''/v1/projects/proj/variables'' None
                  (proj_client\<lparr>accessToken := ''t1'', tokenExpiry := 1000 + token_lifetime 3600\<rparr>)]\<rparr>"
      ?v "\<lparr>PushOptions.Context = None, DryRun = False\<rparr>", OF _ _ _ _ perm perm]
  have same: "Flag.Key ?a = Flag.Key ?b" "Flag.Type ?a = Flag.Type ?b"
    "Flag.Description ?a = Flag.Description ?b"
    "sprint_v g_whole (Flag.DefaultValue ?a) = sprint_v g_whole (Flag.DefaultValue ?b)"
    using r by (simp_all add: number_flag_def)
  note t' = t [OF same]
  have c1: "DefaultPlugin_Compare (static_sync \<lparr>Flags = [?b]\<rparr>) (sprint_v g_whole) rev rev
               \<lparr>DefaultPlugin.config = proj_config, DefaultPlugin.client = Some ()\<rparr>
               \<lparr>Flags = [?a]\<rparr> \<lparr>CompareOptions.Context = None\<rparr> ()
          = (Inr \<lparr>Added = [], Removed = [], Modified = [], CompareResult.Unchanged = [?a]\<rparr>, ())"
    using r
    by (simp add: DefaultPlugin_Compare_def static_sync_def compare_maps_def flag_map_def
        compare_local_def compare_remote_def flagsEqual_def CompareResult_zero_def number_flag_def)
  have c2: "fst (Compare backend_host (sprint_v g_whole) rev rev proj_plugin
               \<lparr>Flags = [?a]\<rparr> \<lparr>CompareOptions.Context = None\<rparr> (start [?v] []))
          = Inr \<lparr>Added = [], Removed = [], Modified = [], CompareResult.Unchanged = [?a]\<rparr>"
    using r vb vc
    by (simp add: Compare_def proj_plugin_eq Get_ex ctx_or_background_def remote_flag_map_def
        compare_maps_def flag_map_def
        compare_local_def compare_remote_def flagsEqual_def CompareResult_zero_def number_flag_def)
  have c3: "fst (Push backend_host (sprint_v g_whole) proj_plugin \<lparr>Flags = [?a]\<rparr>
               \<lparr>PushOptions.Context = None, DryRun = False\<rparr> (start [?v] []))
          = Inr \<lparr>PushResult.Created = [], PushResult.Updated = [], Deleted = [], PushResult.Unchanged = [?a], Errors = []\<rparr>"
    using r vc
    by (simp add: Push_def proj_plugin_eq Get_ex ctx_or_background_def variable_map_def
        push_flag_def flagToVariable_def variableNeedsUpdate_def
        PushResult_zero_def number_flag_def remote_variable_def Let_def)
  have "flagsEqual (sprint_v g_whole) ?a ?b" using t' by simp
  moreover have "?a \<noteq> ?b \<and> Flag.DefaultValue ?a \<noteq> Flag.DefaultValue ?b" by (simp add: number_flag_def)
  moreover have "\<exists>res q' e'. Compare backend_host (sprint_v g_whole) rev rev proj_plugin
               \<lparr>Flags = [?a]\<rparr> \<lparr>CompareOptions.Context = None\<rparr> (start [?v] [])
             = (Inr res, q', e')
          \<and> CompareResult.Unchanged res = [?a] \<and> Modified res = [] \<and> Added res = []"
    using c2 by (cases "Compare backend_host (sprint_v g_whole) rev rev proj_plugin
               \<lparr>Flags = [?a]\<rparr> \<lparr>CompareOptions.Context = None\<rparr> (start [?v] [])") auto
  moreover have "\<exists>res q' e'. Push backend_host (sprint_v g_whole) proj_plugin \<lparr>Flags = [?a]\<rparr>
               \<lparr>PushOptions.Context = None, DryRun = False\<rparr> (start [?v] [])
             = (Inr res, q', e')
          \<and> PushResult.Unchanged res = [?a] \<and> PushResult.Updated res = []
          \<and> PushResult.Created res = []"
    using c3 by (cases "Push backend_host (sprint_v g_whole) proj_plugin \<lparr>Flags = [?a]\<rparr>
               \<lparr>PushOptions.Context = None, DryRun = False\<rparr> (start [?v] [])") auto
  ultimately show ?thesis using r vb c1 by simp
qed

section \<open>Round trip of the manifest\<close>

text \<open>
  C8.  A flagset that \<open>UnmarshalJSON\<close> has loaded into an empty flagset has its flags
  in the strict order of their keys, and \<open>MarshalJSON\<close> followed by \<open>UnmarshalJSON\<close>
  gives the same flagset back: the same keys, each with the same type, description,
  default value and expiry.  The laws assumed of \<open>encoding/json\<close> are that a decoded map has
  distinct keys and JSON values, and that decoding what it encoded from such a map gives
  the entries of that map; the order of \<open>range\<close> over a map is arbitrary.
\<close>

theorem manifest_round_trip:
  assumes order: "\<And>m. mset (ord m) = mset m"
    and decoded: "\<And>d m. json_Unmarshal js d = Inr m \<Longrightarrow>
        distinct (map fst m)
        \<and> list_all (\<lambda>kv. json_value (manifest_flag.DefaultValue (snd kv))) m"
    and codec: "\<And>m. distinct (map fst m) \<Longrightarrow>
        list_all (\<lambda>kv. json_value (manifest_flag.DefaultValue (snd kv))) m \<Longrightarrow>
        \<exists>d m'. json_Marshal js m = Inr d \<and> json_Unmarshal js d = Inr m' \<and> mset m' = mset m"
    and loaded: "UnmarshalJSON js ord d0 \<lparr>Flags = []\<rparr> = (None, fs)"
  shows "sorted (map Flag.Key (Flags fs)) \<and> distinct (map Flag.Key (Flags fs))
         \<and> (\<exists>d. MarshalJSON js fs = Inr d
               \<and> UnmarshalJSON js ord d \<lparr>Flags = []\<rparr> = (None, fs))"
proof -
  have l0: "UnmarshalJSON js ord d0 (\<lparr>Flags = []\<rparr>\<lparr>Flags := []\<rparr>) = (None, fs)"
    using loaded by simp
  from l0 obtain m0 where m0: "json_Unmarshal js d0 = Inr m0"
    and fl: "Flags fs = sort_key Flag.Key (map flag_of_entry (ord m0))"
    and known0: "list_all (\<lambda>f. Flag.Type f \<noteq> UnknownFlagType) (map flag_of_entry (ord m0))"
    by (rule UnmarshalJSON_loaded)
  from decoded [OF m0] have dm0: "distinct (map fst m0)"
    and jm0: "list_all (\<lambda>kv. json_value (manifest_flag.DefaultValue (snd kv))) m0"
    by simp_all
  have keys0: "map Flag.Key (map flag_of_entry (ord m0)) = map fst (ord m0)"
    by (simp add: flag_of_entry_def comp_def)
  have "mset (map fst (ord m0)) = mset (map fst m0)" using order [of m0] by simp
  then have dk: "distinct (map fst (ord m0))"
    using dm0 mset_eq_imp_distinct_iff by blast
  have srt: "sorted (map Flag.Key (Flags fs))"
    unfolding fl by (rule sorted_sort_key)
  have "mset (map Flag.Key (Flags fs)) = mset (map fst (ord m0))"
    unfolding fl using keys0 by (metis mset_map mset_sort)
  then have dst: "distinct (map Flag.Key (Flags fs))"
    using dk mset_eq_imp_distinct_iff by blast
  have known: "list_all (\<lambda>f. Flag.Type f \<noteq> UnknownFlagType) (Flags fs)"
    using known0 unfolding fl by (simp add: list_all_iff)
  have "set (ord m0) = set m0" using order [of m0] by (rule mset_eq_setD)
  with jm0 have jv: "list_all (\<lambda>f. json_value (Flag.DefaultValue f)) (Flags fs)"
    unfolding fl by (auto simp add: list_all_iff flag_of_entry_def)
  let ?g = "\<lambda>f. (Flag.Key f, manifest_entry f)"
  have M: "manifest_of fs = map ?g (Flags fs)"
    using dst by (rule manifest_of_distinct)
  have dM: "distinct (map fst (manifest_of fs))"
    unfolding M using dst by (simp add: comp_def)
  have jM: "list_all (\<lambda>kv. json_value (manifest_flag.DefaultValue (snd kv))) (manifest_of fs)"
    unfolding M using jv by (simp add: list_all_iff manifest_entry_def)
  from codec [OF dM jM] obtain d m' where mar: "json_Marshal js (manifest_of fs) = Inr d"
    and unm: "json_Unmarshal js d = Inr m'" and perm: "mset m' = mset (manifest_of fs)"
    by blast
  have mo: "mset (ord m') = mset (map ?g (Flags fs))"
    using order [of m'] perm M by simp
  then have so: "set (ord m') = ?g ` set (Flags fs)"
    using mset_eq_setD by fastforce
  have ok: "list_all (\<lambda>e. \<exists>t. ParseFlagType (FlagType (snd e)) = Inr t) (ord m')"
    using so known
    by (auto simp add: list_all_iff manifest_entry_def ParseFlagType_String)
  have un: "unmarshal_flags (ord m') [] = (None, map flag_of_entry (ord m'))"
    using unmarshal_flags_ok [OF ok, of "[]"] by simp
  have "mset (map flag_of_entry (ord m')) = image_mset flag_of_entry (mset (map ?g (Flags fs)))"
    using mo by (metis mset_map)
  also have "\<dots> = mset (map (\<lambda>f. flag_of_entry (?g f)) (Flags fs))"
    by (simp add: comp_def multiset.map_comp)
  also have "map (\<lambda>f. flag_of_entry (?g f)) (Flags fs) = Flags fs"
    using known by (simp add: list_all_iff flag_of_manifest_entry map_idI)
  finally have pm: "mset (map flag_of_entry (ord m')) = mset (Flags fs)" .
  have "sort_key Flag.Key (map flag_of_entry (ord m')) = Flags fs"
    using pm srt dst by (rule sort_key_permutation)
  with un unm have "UnmarshalJSON js ord d \<lparr>Flags = []\<rparr> = (None, \<lparr>Flags = Flags fs\<rparr>)"
    by (simp add: UnmarshalJSON_def)
  moreover have "\<lparr>Flags = Flags fs\<rparr> = fs" by simp
  ultimately have "UnmarshalJSON js ord d \<lparr>Flags = []\<rparr> = (None, fs)" by simp
  with mar srt dst show ?thesis
    by (auto simp add: MarshalJSON_def)
qed

theorem manifest_round_trip_witness:
  "UnmarshalJSON list_codec rev manifest_ba \<lparr>Flags = []\<rparr> = (None, flagset_ab)
   \<and> sorted (map Flag.Key (Flags flagset_ab)) \<and> distinct (map Flag.Key (Flags flagset_ab))
   \<and> (\<exists>d. MarshalJSON list_codec flagset_ab = Inr d
          \<and> UnmarshalJSON list_codec rev d \<lparr>Flags = []\<rparr> = (None, flagset_ab))"
  using manifest_round_trip [of rev list_codec manifest_ba flagset_ab,
      OF _ list_codec_decoded list_codec_round_trip load_manifest_ba]
    load_manifest_ba
  by simp

section \<open>Failures of single flags\<close>

text \<open>
  C5.  When the remote variables have been fetched, \<open>Push\<close> returns a result and no
  error, whatever the calls for single flags answer, and every local flag is accounted for
  once in the result: in \<open>Created\<close>, \<open>Updated\<close> or \<open>Unchanged\<close>, or by an entry of
  \<open>Errors\<close> for its key.  A create or an update call that fails appends its error to
  \<open>Errors\<close> and the loop goes on with the remaining flags.
\<close>

theorem Push_continues_after_failures:
  "(ValidateConfig p = None \<and> Plugin.client p = Some c0
      \<and> GetVariables h (ctx_or_background (PushOptions.Context opts)) (project p) c0 e0
           = (Inr vars, c1, e1)
    \<longrightarrow> (\<exists>res p' e'. Push h fv p local opts e0 = (Inr res, p', e')
           \<and> accounted_keys res = mset (map (\<lambda>f. Some (Flag.Key f)) (Flags local))))
   \<and> (rm (Flag.Key flag) = None
        \<and> CreateFeatureWithVariable h cx proj (flagToVariable flag proj) c e = (Some err, c', e')
      \<longrightarrow> push_flags h fv cx proj False rm (flag # flags) (res0, c, e)
            = push_flags h fv cx proj False rm flags
                (res0\<lparr>Errors := Errors res0
                        @ [ErrorfSW ''failed to create %s: %w'' (Flag.Key flag) err]\<rparr>, c', e'))
   \<and> (rm (Flag.Key flag) = Some existing
        \<and> variableNeedsUpdate fv existing (flagToVariable flag proj)
        \<and> UpdateVariable h cx proj (Flag.Key flag) (flagToVariable flag proj) c e = (Some err, c', e')
      \<longrightarrow> push_flags h fv cx proj False rm (flag # flags) (res0, c, e)
            = push_flags h fv cx proj False rm flags
                (res0\<lparr>Errors := Errors res0
                        @ [ErrorfSW ''failed to update %s: %w'' (Flag.Key flag) err]\<rparr>, c', e'))"
proof (intro conjI impI)
  assume a: "ValidateConfig p = None \<and> Plugin.client p = Some c0
      \<and> GetVariables h (ctx_or_background (PushOptions.Context opts)) (project p) c0 e0
           = (Inr vars, c1, e1)"
  let ?cx = "ctx_or_background (PushOptions.Context opts)"
  obtain res c2 e2 where
    l: "push_flags h fv ?cx (project p) (DryRun opts) (variable_map vars) (Flags local)
          (PushResult_zero, c1, e1) = (res, c2, e2)"
    by (cases "push_flags h fv ?cx (project p) (DryRun opts) (variable_map vars) (Flags local)
          (PushResult_zero, c1, e1)") auto
  from a l have "Push h fv p local opts e0 = (Inr res, p\<lparr>Plugin.client := Some c2\<rparr>, e2)"
    by (simp add: Push_fetched)
  moreover have "accounted_keys res = mset (map (\<lambda>f. Some (Flag.Key f)) (Flags local))"
    using push_flags_accounted [of h fv ?cx "project p" "DryRun opts" "variable_map vars"
        "Flags local" PushResult_zero c1 e1] l
    by (simp add: accounted_keys_def PushResult_zero_def)
  ultimately show "\<exists>res p' e'. Push h fv p local opts e0 = (Inr res, p', e')
           \<and> accounted_keys res = mset (map (\<lambda>f. Some (Flag.Key f)) (Flags local))"
    by blast
next
  assume "rm (Flag.Key flag) = None
        \<and> CreateFeatureWithVariable h cx proj (flagToVariable flag proj) c e = (Some err, c', e')"
  then show "push_flags h fv cx proj False rm (flag # flags) (res0, c, e)
            = push_flags h fv cx proj False rm flags
                (res0\<lparr>Errors := Errors res0
                        @ [ErrorfSW ''failed to create %s: %w'' (Flag.Key flag) err]\<rparr>, c', e')"
    by (simp add: push_flag_def Let_def)
next
  assume "rm (Flag.Key flag) = Some existing
        \<and> variableNeedsUpdate fv existing (flagToVariable flag proj)
        \<and> UpdateVariable h cx proj (Flag.Key flag) (flagToVariable flag proj) c e = (Some err, c', e')"
  then show "push_flags h fv cx proj False rm (flag # flags) (res0, c, e)
            = push_flags h fv cx proj False rm flags
                (res0\<lparr>Errors := Errors res0
                        @ [ErrorfSW ''failed to update %s: %w'' (Flag.Key flag) err]\<rparr>, c', e')"
    by (simp add: push_flag_def Let_def)
qed

theorem Push_continues_after_failures_witness:
  "ValidateConfig proj_plugin = None
   \<and> GetVariables backend_host Background ''proj'' proj_client
         (start [remote_variable ''b'' ''Boolean'' (ABool True)] [''a''])
       = (Inr [remote_variable ''b'' ''Boolean'' (ABool True)], token_client,
          fetched [remote_variable ''b'' ''Boolean'' (ABool True)] [''a''])
   \<and> fst (Push backend_host (sprint_v g_whole) proj_plugin local_ab
          \<lparr>PushOptions.Context = None, DryRun = False\<rparr>
          (start [remote_variable ''b'' ''Boolean'' (ABool True)] [''a'']))
       = Inr \<lparr>PushResult.Created = [], PushResult.Updated = [bool_flag ''b'' False],
              Deleted = [], PushResult.Unchanged = [],
              Errors = [ErrorfSW ''failed to create %s: %w'' ''a''
                          (ErrorfDS ''failed to create feature (status %d): %s'' 400 ''refused'')]\<rparr>
   \<and> accounted_keys
         \<lparr>PushResult.Created = [], PushResult.Updated = [bool_flag ''b'' False],
          Deleted = [], PushResult.Unchanged = [],
          Errors = [ErrorfSW ''failed to create %s: %w'' ''a''
                      (ErrorfDS ''failed to create feature (status %d): %s'' 400 ''refused'')]\<rparr>
       = {#Some ''a'', Some ''b''#}
   \<and> fst (CreateFeatureWithVariable backend_host Background ''proj''
            (flagToVariable (bool_flag ''a'' True) ''proj'') token_client
            (fetched [remote_variable ''b'' ''Boolean'' (ABool True)] [''a'']))
       = Some (ErrorfDS ''failed to create feature (status %d): %s'' 400 ''refused'')
   \<and> fst (push_flags backend_host (sprint_v g_whole) Background ''proj'' False
            (variable_map [remote_variable ''b'' ''Boolean'' (ABool True)])
            [bool_flag ''a'' True, bool_flag ''b'' False]
            (PushResult_zero, token_client,
             fetched [remote_variable ''b'' ''Boolean'' (ABool True)] [''a'']))
       = \<lparr>PushResult.Created = [], PushResult.Updated = [bool_flag ''b'' False],
          Deleted = [], PushResult.Unchanged = [],
          Errors = [ErrorfSW ''failed to create %s: %w'' ''a''
                      (ErrorfDS ''failed to create feature (status %d): %s'' 400 ''refused'')]\<rparr>
   \<and> variableNeedsUpdate (sprint_v g_whole) (remote_variable ''a'' ''Boolean'' (ABool False))
         (flagToVariable (bool_flag ''a'' True) ''proj'')
   \<and> fst (UpdateVariable backend_host Background ''proj'' ''a''
            (flagToVariable (bool_flag ''a'' True) ''proj'') token_client
            (fetched [remote_variable ''a'' ''Boolean'' (ABool False)] [''a'']))
       = Some (ErrorfDS ''failed to update variable (status %d): %s'' 400 ''refused'')
   \<and> fst (push_flags backend_host (sprint_v g_whole) Background ''proj'' False
            (variable_map [remote_variable ''a'' ''Boolean'' (ABool False)])
            [bool_flag ''a'' True, bool_flag ''b'' False]
            (PushResult_zero, token_client,
             fetched [remote_variable ''a'' ''Boolean'' (ABool False)] [''a'']))
       = \<lparr>PushResult.Created = [bool_flag ''b'' False], PushResult.Updated = [],
          Deleted = [], PushResult.Unchanged = [],
          Errors = [ErrorfSW ''failed to update %s: %w'' ''a''
                      (ErrorfDS ''failed to update variable (status %d): %s'' 400 ''refused'')]\<rparr>"
proof -
  let ?vb = "remote_variable ''b'' ''Boolean'' (ABool True)"
  let ?va = "remote_variable ''a'' ''Boolean'' (ABool False)"
  let ?a = "bool_flag ''a'' True" and ?b = "bool_flag ''b'' False"
  let ?opts = "\<lparr>PushOptions.Context = None, DryRun = False\<rparr>"
  let ?ce = "ErrorfDS ''failed to create feature (status %d): %s'' 400 ''refused''"
  let ?ue = "ErrorfDS ''failed to update variable (status %d): %s'' 400 ''refused''"
  let ?R1 = "\<lparr>PushResult.Created = [], PushResult.Updated = [?b],
          Deleted = [], PushResult.Unchanged = [],
          Errors = [ErrorfSW ''failed to create %s: %w'' ''a'' ?ce]\<rparr>"
  have g: "GetVariables backend_host (ctx_or_background (PushOptions.Context ?opts))
             (project proj_plugin) proj_client (start [?vb] [''a''])
           = (Inr [?vb], token_client, fetched [?vb] [''a''])"
    by (simp add: Get_fetched proj_plugin_valid ctx_or_background_def)
  have none: "variable_map [?vb] (Flag.Key ?a) = None"
    by (simp add: variable_map_def remote_variable_def bool_flag_def)
  have some: "variable_map [?va] (Flag.Key ?a) = Some ?va"
    by (simp add: variable_map_def remote_variable_def bool_flag_def)
  have nu: "variableNeedsUpdate (sprint_v g_whole) ?va (flagToVariable ?a ''proj'')"
    by (simp add: variableNeedsUpdate_def flagToVariable_def remote_variable_def bool_flag_def)
  note A = Push_continues_after_failures
    [where p = proj_plugin and ?c0.0 = proj_client and h = backend_host and opts = ?opts
       and ?e0.0 = "start [?vb] [''a'']" and vars = "[?vb]" and ?c1.0 = token_client
       and ?e1.0 = "fetched [?vb] [''a'']" and fv = "sprint_v g_whole" and local = local_ab
       and rm = "variable_map [?vb]" and flag = ?a and cx = Background and proj = "''proj''"
       and c = token_client and e = "fetched [?vb] [''a'']" and err = ?ce
       and c' = token_client
       and e' = "\<lparr>world = \<lparr>store = [?vb], clock = 1002, refused = [''a'']\<rparr>,
         sent = sent (fetched [?vb] [''a''])
           @ [api_request Background ''POST'' ''/v2/projects/proj/features''
                (Some (PFeature (feature_of_variable (flagToVariable ?a ''proj''))))
                token_client]\<rparr>"
       and flags = "[?b]" and ?res0.0 = PushResult_zero]
  note B = Push_continues_after_failures
    [where h = backend_host and fv = "sprint_v g_whole"
       and rm = "variable_map [?va]" and flag = ?a and cx = Background and proj = "''proj''"
       and c = token_client and e = "fetched [?va] [''a'']" and err = ?ue
       and existing = ?va and c' = token_client
       and e' = "\<lparr>world = \<lparr>store = [?va], clock = 1002, refused = [''a'']\<rparr>,
         sent = sent (fetched [?va] [''a''])
           @ [api_request Background ''PATCH'' ''/v1/projects/proj/variables/a''
                (Some (PMap [(''description'', AString [])])) token_client]\<rparr>"
       and flags = "[?b]" and ?res0.0 = PushResult_zero]
  note A1 = A [THEN conjunct1] and A2 = A [THEN conjunct2, THEN conjunct1]
    and B3 = B [THEN conjunct2, THEN conjunct2]
  from A1 g proj_plugin_valid
  obtain res p' e' where
    pr: "Push backend_host (sprint_v g_whole) proj_plugin local_ab ?opts (start [?vb] [''a''])
           = (Inr res, p', e')"
    and ac: "accounted_keys res = mset (map (\<lambda>f. Some (Flag.Key f)) (Flags local_ab))"
    by blast
  from pr push_create_refused have "res = ?R1" by simp
  with ac have acc: "accounted_keys ?R1 = {#Some ''a'', Some ''b''#}"
    by (simp add: local_ab_def bool_flag_def)
  from A2 none create_refused [of "[?vb]"]
  have s1: "push_flags backend_host (sprint_v g_whole) Background ''proj'' False
              (variable_map [?vb]) [?a, ?b] (PushResult_zero, token_client, fetched [?vb] [''a''])
            = push_flags backend_host (sprint_v g_whole) Background ''proj'' False
              (variable_map [?vb]) [?b]
              (PushResult_zero\<lparr>Errors := Errors PushResult_zero
                 @ [ErrorfSW ''failed to create %s: %w'' (Flag.Key ?a) ?ce]\<rparr>, token_client,
               \<lparr>world = \<lparr>store = [?vb], clock = 1002, refused = [''a'']\<rparr>,
                sent = sent (fetched [?vb] [''a''])
                  @ [api_request Background ''POST'' ''/v2/projects/proj/features''
                       (Some (PFeature (feature_of_variable (flagToVariable ?a ''proj''))))
                       token_client]\<rparr>)"
    by (simp add: bool_flag_def)
  from B3 some nu update_refused [of "[?va]"]
  have s2: "push_flags backend_host (sprint_v g_whole) Background ''proj'' False
              (variable_map [?va]) [?a, ?b] (PushResult_zero, token_client, fetched [?va] [''a''])
            = push_flags backend_host (sprint_v g_whole) Background ''proj'' False
              (variable_map [?va]) [?b]
              (PushResult_zero\<lparr>Errors := Errors PushResult_zero
                 @ [ErrorfSW ''failed to update %s: %w'' (Flag.Key ?a) ?ue]\<rparr>, token_client,
               \<lparr>world = \<lparr>store = [?va], clock = 1002, refused = [''a'']\<rparr>,
                sent = sent (fetched [?va] [''a''])
                  @ [api_request Background ''PATCH'' ''/v1/projects/proj/variables/a''
                       (Some (PMap [(''description'', AString [])])) token_client]\<rparr>)"
    by (simp add: bool_flag_def)
  have r1: "fst (push_flags backend_host (sprint_v g_whole) Background ''proj'' False
              (variable_map [?vb]) [?a, ?b] (PushResult_zero, token_client, fetched [?vb] [''a'']))
            = ?R1"
    unfolding s1
    by (simp add: run_defs token_client_def fetched_def token_lifetime_hour)
  have r2: "fst (push_flags backend_host (sprint_v g_whole) Background ''proj'' False
              (variable_map [?va]) [?a, ?b] (PushResult_zero, token_client, fetched [?va] [''a'']))
            = \<lparr>PushResult.Created = [?b], PushResult.Updated = [],
          Deleted = [], PushResult.Unchanged = [],
          Errors = [ErrorfSW ''failed to update %s: %w'' ''a'' ?ue]\<rparr>"
    unfolding s2
    by (simp add: run_defs token_client_def fetched_def token_lifetime_hour)
  show ?thesis
    using proj_plugin_valid Get_fetched [of "[?vb]" "[''a'']"] push_create_refused acc
      create_refused [of "[?vb]"] update_refused [of "[?va]"] r1 r2 nu
    by simp
qed

section \<open>Dry runs\<close>

text \<open>
  C2.  When the remote variables have been fetched, a dry run of \<open>Push\<close> issues no call
  after the fetch and records no error, and the push that issues the calls, from the same
  state, is covered by it: what it created and updated are, in order, among what the dry
  run planned, the unchanged flags are the same, and each planned flag that is missing
  has an error in its place.  When the push records no error, its \<open>Created\<close> and
  \<open>Updated\<close> are those of the dry run.
\<close>

theorem dry_run_plans_the_push:
  "ValidateConfig p = None \<and> Plugin.client p = Some c0
     \<and> GetVariables h (ctx_or_background (PushOptions.Context opts)) (project p) c0 e
          = (Inr vars, c1, e1)
   \<longrightarrow> (\<exists>plan run p2 e2.
          Push h fv p local (opts\<lparr>DryRun := True\<rparr>) e
            = (Inr plan, p\<lparr>Plugin.client := Some c1\<rparr>, e1)
        \<and> Push h fv p local (opts\<lparr>DryRun := False\<rparr>) e = (Inr run, p2, e2)
        \<and> Errors plan = []
        \<and> dry_covers plan run
        \<and> (Errors run = []
             \<longrightarrow> PushResult.Created run = PushResult.Created plan
                 \<and> PushResult.Updated run = PushResult.Updated plan))"
proof
  assume a: "ValidateConfig p = None \<and> Plugin.client p = Some c0
     \<and> GetVariables h (ctx_or_background (PushOptions.Context opts)) (project p) c0 e
          = (Inr vars, c1, e1)"
  let ?cx = "ctx_or_background (PushOptions.Context opts)"
  let ?dry = "push_flags h fv ?cx (project p) True (variable_map vars) (Flags local)
                (PushResult_zero, c1, e1)"
  let ?real = "push_flags h fv ?cx (project p) False (variable_map vars) (Flags local)
                (PushResult_zero, c1, e1)"
  obtain run c2 e2 where r: "?real = (run, c2, e2)" by (cases ?real) auto
  have "?dry = (fst ?dry, c1, e1)" by (rule push_flags_dry)
  then obtain plan where d: "?dry = (plan, c1, e1)" by blast
  have pd: "Push h fv p local (opts\<lparr>DryRun := True\<rparr>) e
              = (Inr plan, p\<lparr>Plugin.client := Some c1\<rparr>, e1)"
    using a d Push_fetched [of p c0 h "opts\<lparr>DryRun := True\<rparr>" e vars c1 e1 fv local]
    by simp
  have pr: "Push h fv p local (opts\<lparr>DryRun := False\<rparr>) e
              = (Inr run, p\<lparr>Plugin.client := Some c2\<rparr>, e2)"
    using a r Push_fetched [of p c0 h "opts\<lparr>DryRun := False\<rparr>" e vars c1 e1 fv local]
    by simp
  have z: "dry_covers PushResult_zero PushResult_zero"
    by (simp add: dry_covers_def PushResult_zero_def)
  have cov: "dry_covers plan run"
    using push_flags_dry_covers [OF z, of h fv ?cx "project p" "variable_map vars"
        "Flags local" c1 e1 c1 e1] r d by simp
  have noerr: "Errors plan = []"
    using push_flags_dry_errors [of h fv ?cx "project p" "variable_map vars" "Flags local"
        PushResult_zero c1 e1] d
    by (simp add: PushResult_zero_def)
  show "\<exists>plan run p2 e2.
          Push h fv p local (opts\<lparr>DryRun := True\<rparr>) e
            = (Inr plan, p\<lparr>Plugin.client := Some c1\<rparr>, e1)
        \<and> Push h fv p local (opts\<lparr>DryRun := False\<rparr>) e = (Inr run, p2, e2)
        \<and> Errors plan = []
        \<and> dry_covers plan run
        \<and> (Errors run = []
             \<longrightarrow> PushResult.Created run = PushResult.Created plan
                 \<and> PushResult.Updated run = PushResult.Updated plan)"
    using pd pr noerr cov dry_covers_no_errors [OF cov] by blast
qed

theorem dry_run_plans_the_push_witness:
  "ValidateConfig proj_plugin = None
   \<and> GetVariables backend_host Background ''proj'' proj_client (start [] [])
       = (Inr [], token_client, fetched [] [])
   \<and> Push backend_host (sprint_v g_whole) proj_plugin local_ab
          \<lparr>PushOptions.Context = None, DryRun = True\<rparr> (start [] [])
       = (Inr \<lparr>PushResult.Created = [bool_flag ''a'' True, bool_flag ''b'' False],
                PushResult.Updated = [], Deleted = [], PushResult.Unchanged = [], Errors = []\<rparr>,
          proj_plugin\<lparr>Plugin.client := Some token_client\<rparr>, fetched [] [])
   \<and> fst (Push backend_host (sprint_v g_whole) proj_plugin local_ab
          \<lparr>PushOptions.Context = None, DryRun = False\<rparr> (start [] []))
       = Inr \<lparr>PushResult.Created = [bool_flag ''a'' True, bool_flag ''b'' False],
              PushResult.Updated = [], Deleted = [], PushResult.Unchanged = [], Errors = []\<rparr>
   \<and> dry_covers
         \<lparr>PushResult.Created = [bool_flag ''a'' True, bool_flag ''b'' False],
          PushResult.Updated = [], Deleted = [], PushResult.Unchanged = [], Errors = []\<rparr>
         \<lparr>PushResult.Created = [bool_flag ''a'' True, bool_flag ''b'' False],
          PushResult.Updated = [], Deleted = [], PushResult.Unchanged = [], Errors = []\<rparr>"
proof -
  let ?R = "\<lparr>PushResult.Created = [bool_flag ''a'' True, bool_flag ''b'' False],
          PushResult.Updated = [], Deleted = [], PushResult.Unchanged = [], Errors = []\<rparr>"
  have g: "GetVariables backend_host
             (ctx_or_background (PushOptions.Context \<lparr>PushOptions.Context = None, DryRun = False\<rparr>))
             (project proj_plugin) proj_client (start [] [])
           = (Inr [], token_client, fetched [] [])"
    by (simp add: Get_fetched proj_plugin_valid ctx_or_background_def)
  from dry_run_plans_the_push [of proj_plugin proj_client backend_host
      "\<lparr>PushOptions.Context = None, DryRun = False\<rparr>" "start [] []" "[]" token_client
      "fetched [] []" "sprint_v g_whole" local_ab] g proj_plugin_valid
  obtain plan run p2 e2 where
    pd: "Push backend_host (sprint_v g_whole) proj_plugin local_ab
           \<lparr>PushOptions.Context = None, DryRun = True\<rparr> (start [] [])
         = (Inr plan, proj_plugin\<lparr>Plugin.client := Some token_client\<rparr>, fetched [] [])"
    and pr: "Push backend_host (sprint_v g_whole) proj_plugin local_ab
           \<lparr>PushOptions.Context = None, DryRun = False\<rparr> (start [] []) = (Inr run, p2, e2)"
    and cov: "dry_covers plan run"
    by auto
  from pd push_plain_plan have "plan = ?R" by simp
  moreover from pr push_plain_run have "run = ?R" by simp
  ultimately show ?thesis
    using pd cov push_plain_run proj_plugin_valid Get_fetched [of "[]" "[]"] by simp
qed

text \<open>
  When the backend refuses the feature \<open>a\<close>, the dry run plans to create \<open>a\<close> and \<open>b\<close>,
  and the push creates \<open>b\<close> alone and records the error for \<open>a\<close>: the two \<open>Created\<close>
  lists do not have the same members.
\<close>

theorem push_drops_failed_flag:
  "fst (Push backend_host (sprint_v g_whole) proj_plugin local_ab
          \<lparr>PushOptions.Context = None, DryRun = True\<rparr> (start [] [''a'']))
     = Inr \<lparr>PushResult.Created = [bool_flag ''a'' True, bool_flag ''b'' False],
            PushResult.Updated = [], Deleted = [], PushResult.Unchanged = [], Errors = []\<rparr>
   \<and> fst (Push backend_host (sprint_v g_whole) proj_plugin local_ab
          \<lparr>PushOptions.Context = None, DryRun = False\<rparr> (start [] [''a'']))
     = Inr \<lparr>PushResult.Created = [bool_flag ''b'' False], PushResult.Updated = [],
            Deleted = [], PushResult.Unchanged = [],
            Errors = [ErrorfSW ''failed to create %s: %w'' ''a''
                        (ErrorfDS ''failed to create feature (status %d): %s'' 400 ''refused'')]\<rparr>
   \<and> set [bool_flag ''a'' True, bool_flag ''b'' False] \<noteq> set [bool_flag ''b'' False]"
  using push_refused_plan push_refused_run by (simp add: bool_flag_def)

section \<open>Refreshing the token\<close>



section \<open>What an update sends\<close>

text \<open>
  C9.  \<open>UpdateVariable\<close> depends on its variable only through the description: two
  variables with the same description give the same requests and the same result,
  whatever their types and default values.  Every request it sends is the token request or
  a \<open>PATCH\<close> of the variable whose body is the description alone.
\<close>

theorem UpdateVariable_sends_description_only:
  "(Variable.Description variable = Variable.Description variable'
      \<longrightarrow> UpdateVariable h cx proj k variable c e = UpdateVariable h cx proj k variable' c e)
   \<and> (UpdateVariable h cx proj k variable c e = (r, c', e')
      \<longrightarrow> (\<exists>rs. sent e' = sent e @ rs
            \<and> (\<forall>req \<in> set rs.
                  req = auth_request cx c
                  \<or> (Method req = ''PATCH''
                      \<and> URL req = apiURL @ ''/v1/projects/'' @ proj @ ''/variables/'' @ k
                      \<and> body req = JSONBody (PMap [(''description'',
                                          AString (Variable.Description variable))])))))"
proof (intro conjI impI)
  assume "Variable.Description variable = Variable.Description variable'"
  then show "UpdateVariable h cx proj k variable c e = UpdateVariable h cx proj k variable' c e"
    by (simp add: UpdateVariable_def updateBody_def)
next
  assume u: "UpdateVariable h cx proj k variable c e = (r, c', e')"
  let ?path = "''/v1/projects/'' @ proj @ ''/variables/'' @ k"
  let ?b = "Some (PMap (updateBody variable))"
  obtain r0 c0 e0 where d: "doRequest h cx ''PATCH'' ?path ?b c e = (r0, c0, e0)"
    by (cases "doRequest h cx ''PATCH'' ?path ?b c e") auto
  from u d have e': "e' = e0"
    by (auto simp add: UpdateVariable_def split: sum.splits if_splits)
  obtain ao c1 e1 where au: "authenticate h cx c e = (ao, c1, e1)"
    by (cases "authenticate h cx c e") auto
  have s1: "sent e1 = sent e \<or> sent e1 = sent e @ [auth_request cx c]"
    using au
    by (auto simp add: authenticate_def refresh_token_def httpClient_Do_def time_Now_def
        split: prod.splits sum.splits if_splits option.splits)
  have s2: "sent e0 = sent e1 \<or> sent e0 = sent e1 @ [api_request cx ''PATCH'' ?path ?b c1]"
  proof (cases ao)
    case None
    with au have "authenticate h cx c e = (None, c1, e1)" by simp
    from doRequest_after_authenticate [OF this d] show ?thesis by auto
  next
    case (Some err)
    with au have "authenticate h cx c e = (Some err, c1, e1)" by simp
    from doRequest_authenticate_failed [OF this, of "''PATCH''" ?path ?b] d show ?thesis by simp
  qed
  have p: "Method (api_request cx ''PATCH'' ?path ?b c1) = ''PATCH''
           \<and> URL (api_request cx ''PATCH'' ?path ?b c1) = apiURL @ ?path
           \<and> body (api_request cx ''PATCH'' ?path ?b c1)
               = JSONBody (PMap [(''description'', AString (Variable.Description variable))])"
    by (simp add: api_request_def updateBody_def)
  from s1 obtain rs1 where r1: "sent e1 = sent e @ rs1"
    and m1: "set rs1 \<subseteq> {auth_request cx c}"
    by (elim disjE) (fastforce+)
  from s2 obtain rs2 where r2: "sent e0 = sent e1 @ rs2"
    and m2: "set rs2 \<subseteq> {api_request cx ''PATCH'' ?path ?b c1}"
    by (elim disjE) (fastforce+)
  from r1 r2 e' have "sent e' = sent e @ (rs1 @ rs2)" by simp
  moreover from m1 m2 p
  have "\<forall>req \<in> set (rs1 @ rs2).
          req = auth_request cx c
          \<or> (Method req = ''PATCH''
              \<and> URL req = apiURL @ ''/v1/projects/'' @ proj @ ''/variables/'' @ k
              \<and> body req = JSONBody (PMap [(''description'',
                                  AString (Variable.Description variable))]))"
    by auto
  ultimately
  show "\<exists>rs. sent e' = sent e @ rs
            \<and> (\<forall>req \<in> set rs.
                  req = auth_request cx c
                  \<or> (Method req = ''PATCH''
                      \<and> URL req = apiURL @ ''/v1/projects/'' @ proj @ ''/variables/'' @ k
                      \<and> body req = JSONBody (PMap [(''description'',
                                          AString (Variable.Description variable))])))"
    by blast
qed

theorem UpdateVariable_sends_description_only_witness:
  "Variable.DefaultValue (flagToVariable ((bool_flag ''a'' True)\<lparr>Flag.Description := ''on''\<rparr>) ''proj'')
     \<noteq> Variable.DefaultValue (flagToVariable ((number_flag ''a'' (AFloat 2))\<lparr>Flag.Description := ''on''\<rparr>) ''proj'')
   \<and> Variable.Type (flagToVariable ((bool_flag ''a'' True)\<lparr>Flag.Description := ''on''\<rparr>) ''proj'')
     \<noteq> Variable.Type (flagToVariable ((number_flag ''a'' (AFloat 2))\<lparr>Flag.Description := ''on''\<rparr>) ''proj'')
   \<and> UpdateVariable backend_host Background ''proj'' ''a''
       (flagToVariable ((bool_flag ''a'' True)\<lparr>Flag.Description := ''on''\<rparr>) ''proj'')
       token_client (fetched [remote_variable ''a'' ''Boolean'' (ABool False)] [])
     = UpdateVariable backend_host Background ''proj'' ''a''
       (flagToVariable ((number_flag ''a'' (AFloat 2))\<lparr>Flag.Description := ''on''\<rparr>) ''proj'')
       token_client (fetched [remote_variable ''a'' ''Boolean'' (ABool False)] [])
   \<and> UpdateVariable backend_host Background ''proj'' ''a''
       (flagToVariable ((bool_flag ''a'' True)\<lparr>Flag.Description := ''on''\<rparr>) ''proj'')
       token_client (fetched [remote_variable ''a'' ''Boolean'' (ABool False)] [])
     = (None, token_client,
        \<lparr>world = \<lparr>store = [(remote_variable ''a'' ''Boolean'' (ABool False))
                               \<lparr>Variable.Description := ''on''\<rparr>],
                   clock = 1002, refused = []\<rparr>,
         sent = sent (fetched [remote_variable ''a'' ''Boolean'' (ABool False)] [])
           @ [api_request Background ''PATCH'' ''/v1/projects/proj/variables/a''
                (Some (PMap [(''description'', AString ''on'')])) token_client]\<rparr>)
   \<and> body (api_request Background ''PATCH'' ''/v1/projects/proj/variables/a''
                (Some (PMap [(''description'', AString ''on'')])) token_client)
     = JSONBody (PMap [(''description'', AString ''on'')])"
proof -
  let ?v = "flagToVariable ((bool_flag ''a'' True)\<lparr>Flag.Description := ''on''\<rparr>) ''proj''"
  let ?v' = "flagToVariable ((number_flag ''a'' (AFloat 2))\<lparr>Flag.Description := ''on''\<rparr>) ''proj''"
  let ?e = "fetched [remote_variable ''a'' ''Boolean'' (ABool False)] []"
  have d: "Variable.Description ?v = Variable.Description ?v'"
    by (simp add: flagToVariable_def)
  have n: "Variable.DefaultValue ?v \<noteq> Variable.DefaultValue ?v'
           \<and> Variable.Type ?v \<noteq> Variable.Type ?v'"
    by (simp add: flagToVariable_def bool_flag_def number_flag_def)
  from UpdateVariable_sends_description_only
    [where variable = ?v and variable' = ?v' and h = backend_host and cx = Background
       and proj = "''proj''" and k = "''a''" and c = token_client and e = ?e,
     THEN conjunct1] d
  have "UpdateVariable backend_host Background ''proj'' ''a'' ?v token_client ?e
          = UpdateVariable backend_host Background ''proj'' ''a'' ?v' token_client ?e"
    by blast
  moreover
  from UpdateVariable_sends_description_only
    [where variable = ?v and h = backend_host and cx = Background
       and proj = "''proj''" and k = "''a''" and c = token_client and e = ?e,
     THEN conjunct2] update_described
  obtain rs where
    rs: "sent \<lparr>world = \<lparr>store = [(remote_variable ''a'' ''Boolean'' (ABool False))
                                         \<lparr>Variable.Description := ''on''\<rparr>],
                             clock = 1002, refused = []\<rparr>,
                   sent = sent ?e
                     @ [api_request Background ''PATCH'' ''/v1/projects/proj/variables/a''
                          (Some (PMap [(''description'', AString ''on'')])) token_client]\<rparr>
           = sent ?e @ rs"
    and only: "\<forall>req \<in> set rs.
                  req = auth_request Background token_client
                  \<or> (Method req = ''PATCH''
                      \<and> URL req = apiURL @ ''/v1/projects/'' @ ''proj'' @ ''/variables/'' @ ''a''
                      \<and> body req = JSONBody (PMap [(''description'',
                                          AString (Variable.Description ?v))]))"
    by blast
  from rs have "rs = [api_request Background ''PATCH'' ''/v1/projects/proj/variables/a''
                        (Some (PMap [(''description'', AString ''on'')])) token_client]"
    by simp
  with only have "body (api_request Background ''PATCH'' ''/v1/projects/proj/variables/a''
                (Some (PMap [(''description'', AString ''on'')])) token_client)
     = JSONBody (PMap [(''description'', AString ''on'')])"
    by (simp add: api_request_def auth_request_def flagToVariable_def)
  ultimately show ?thesis
    using n update_described by simp
qed

section \<open>Pushing twice\<close>

text \<open>
  C3.  The local flag \<open>a\<close> has the default value \<open>true\<close>, the remote variable \<open>a\<close> the
  default value \<open>false\<close>.  The first push updates \<open>a\<close> without an error, the backend
  applies the description it was sent, and the stored variable is as before; the second
  push of the same flagset, by the plugin and on the state the first push left, updates
  \<open>a\<close> again.
\<close>

theorem second_push_updates_again:
  "fst (Push backend_host (sprint_v g_whole) proj_plugin \<lparr>Flags = [bool_flag ''a'' True]\<rparr>
          \<lparr>PushOptions.Context = None, DryRun = False\<rparr>
          (start [remote_variable ''a'' ''Boolean'' (ABool False)] []))
     = Inr \<lparr>PushResult.Created = [], PushResult.Updated = [bool_flag ''a'' True],
            Deleted = [], PushResult.Unchanged = [], Errors = []\<rparr>
   \<and> store (world (snd (snd
         (Push backend_host (sprint_v g_whole) proj_plugin \<lparr>Flags = [bool_flag ''a'' True]\<rparr>
            \<lparr>PushOptions.Context = None, DryRun = False\<rparr>
            (start [remote_variable ''a'' ''Boolean'' (ABool False)] [])))))
     = [remote_variable ''a'' ''Boolean'' (ABool False)]
   \<and> fst (Push backend_host (sprint_v g_whole)
          (fst (snd (Push backend_host (sprint_v g_whole) proj_plugin
                       \<lparr>Flags = [bool_flag ''a'' True]\<rparr>
                       \<lparr>PushOptions.Context = None, DryRun = False\<rparr>
                       (start [remote_variable ''a'' ''Boolean'' (ABool False)] []))))
          \<lparr>Flags = [bool_flag ''a'' True]\<rparr>
          \<lparr>PushOptions.Context = None, DryRun = False\<rparr>
          (snd (snd (Push backend_host (sprint_v g_whole) proj_plugin
                       \<lparr>Flags = [bool_flag ''a'' True]\<rparr>
                       \<lparr>PushOptions.Context = None, DryRun = False\<rparr>
                       (start [remote_variable ''a'' ''Boolean'' (ABool False)] [])))))
     = Inr \<lparr>PushResult.Created = [], PushResult.Updated = [bool_flag ''a'' True],
            Deleted = [], PushResult.Unchanged = [], Errors = []\<rparr>"
  by (simp add: run_defs token_lifetime_hour)

end
